theory Spec2Isabelle
  imports Complex_Main
begin

section \<open>The store\<close>

text \<open>
  The server keeps its state in PostgreSQL tables and every handler is a sequence of SQL
  statements between \<^verbatim>\<open>BEGIN\<close> and \<^verbatim>\<open>COMMIT\<close> or \<^verbatim>\<open>ROLLBACK\<close>. A table is modelled by
  its rows, restricted to the columns the handlers read or write (timestamps, units,
  category and supplier references and thresholds take no part in any decision).

  \<^item> \<^verbatim>\<open>inventory\<close> and \<^verbatim>\<open>locations\<close> are lists of rows; a \<^verbatim>\<open>SELECT\<close> without
    \<^verbatim>\<open>ORDER BY\<close> answers in list order, so \<^verbatim>\<open>rows[0]\<close> is the first match.
  \<^item> \<^verbatim>\<open>location_inventory\<close> carries a uniqueness constraint on
    \<^verbatim>\<open>(inventory_id, location_id)\<close> (the transfer handler's \<^verbatim>\<open>ON CONFLICT\<close> names it),
    so it is a map from that pair to the row's quantity.
  \<^item> \<^verbatim>\<open>supplies\<close> is addressed by its primary key only: a map from the id.
  \<^item> \<^verbatim>\<open>ops\<close> is the list of operatories.
  \<^item> \<^verbatim>\<open>op_supplies\<close> is a list of rows: an \<^verbatim>\<open>UPDATE\<close> touches every matching row.
  \<^item> \<^verbatim>\<open>supply_logs\<close> is the list of log rows, oldest first.

  Quantities are integer columns (\<open>int\<close>). Identifiers are numbers; a missing or zero
  identifier is falsy in JavaScript, and both are written \<open>0\<close>. Strings that may be
  absent are written \<open>''''\<close> when absent (the empty string is falsy as well).

  The schema is not among the sources, but the handlers name five of its constraints, and
  these are part of the model:
  \<^item> \<^verbatim>\<open>location_inventory_location_id_fkey\<close> (routes/locations.js): a row of
    \<^verbatim>\<open>location_inventory\<close> refers to a row of \<^verbatim>\<open>locations\<close>;
  \<^item> \<^verbatim>\<open>op_supplies_op_id_fkey\<close> and \<^verbatim>\<open>supply_logs_op_id_fkey\<close> (routes/ops.js): the
    \<^verbatim>\<open>op_id\<close> of a row of \<^verbatim>\<open>op_supplies\<close> or \<^verbatim>\<open>supply_logs\<close> is null or refers to a
    row of \<^verbatim>\<open>ops\<close>;
  \<^item> \<^verbatim>\<open>inventory_barcode_key\<close> and \<^verbatim>\<open>inventory_user_barcode_unique\<close>
    (routes/inventory.js): barcodes are unique, over all users or per user. The sources do
    not say which of the two the schema declares; the store carries the answer for the
    first (\<open>inventory_barcode_key\<close>), and the second cannot be violated after the
    handler's own check of the user's barcodes.

  An \<^verbatim>\<open>INSERT\<close> that one of them refuses raises an error of the driver, which the
  handler's \<^verbatim>\<open>catch\<close> block answers after a rollback. No other constraint, and no column
  width, is named in the sources; none is modelled.

  JavaScript numbers are IEEE 754 doubles. A finite double is a real number, and a cost is
  kept as the real it denotes; the rounding of \<^verbatim>\<open>parseFloat\<close> and of the product
  \<^verbatim>\<open>*\<close> of two numbers is not defined by the theory: the two operations are
  parameters of the handler that uses them, and nothing is assumed of them.

  A handler is a function from the committed store to the committed store after the call
  and the response it sends. Between \<^verbatim>\<open>BEGIN\<close> and \<^verbatim>\<open>COMMIT\<close> its statements act on a
  working state; \<^verbatim>\<open>COMMIT\<close> makes the working state the store, and \<^verbatim>\<open>ROLLBACK\<close> drops
  it, so that a branch that rolls back returns the store it was given.
\<close>

record inventory_row =
  inv_id :: nat
  inv_name :: string
  inv_barcode :: "string option"
  inv_cost_per_unit :: "real option"
  inv_user_id :: nat

record location_row =
  loc_id :: nat
  loc_name :: string
  loc_user_id :: nat

record supply_row =
  sup_quantity :: int
  sup_cost_per_unit :: "real option"

record operatory_row =
  opr_id :: nat
  opr_name :: string
  opr_user_id :: nat

record op_supply_row =
  os_op_id :: "nat option"
  os_supply_id :: nat
  os_quantity :: int

record supply_log =
  log_user_id :: nat
  log_op_id :: "nat option"
  log_supply_id :: nat
  log_quantity :: int
  log_action :: string
  log_unit_cost :: real
  log_total_cost :: real
  log_procedure_id :: "nat option"

record db =
  inventory :: "inventory_row list"
  locations :: "location_row list"
  location_inventory :: "nat \<times> nat \<rightharpoonup> int"
  supplies :: "nat \<rightharpoonup> supply_row"
  ops :: "operatory_row list"
  op_supplies :: "op_supply_row list"
  supply_logs :: "supply_log list"
  inventory_barcode_key :: bool

text \<open>
  What a handler answers: the HTTP status and the JSON body. The bodies are
  \<^verbatim>\<open>{ error: ... }\<close>, \<^verbatim>\<open>{ message: ... }\<close>, \<^verbatim>\<open>{ success: true }\<close> or a row.
\<close>

datatype body =
    Error string
  | Message string
  | Success
  | LogRow supply_log
  | OpSupplyRow op_supply_row
  | SupplyRow supply_row

datatype response = Response (status: nat) (payload: body)

text \<open>The two operations on JavaScript numbers that the handlers use.\<close>

record js_numbers =
  js_parseFloat :: "real \<Rightarrow> real"
  js_times :: "real \<Rightarrow> real \<Rightarrow> real"

subsection \<open>Template literals\<close>

definition digit :: "nat \<Rightarrow> char" where
  "digit d = ''0123456789'' ! d"

fun show_nat :: "nat \<Rightarrow> string" where
  "show_nat n = (if n < 10 then [digit n] else show_nat (n div 10) @ [digit (n mod 10)])"

declare show_nat.simps [simp del]

definition show_int :: "int \<Rightarrow> string" where
  "show_int i = (if i < 0 then CHR ''-'' # show_nat (nat (- i)) else show_nat (nat i))"

subsection \<open>Statements shared by the handlers\<close>

text \<open>\<^verbatim>\<open>SELECT 1 FROM inventory WHERE id = $1 AND user_id = $2\<close>, read through its row count.\<close>

definition owns :: "db \<Rightarrow> nat \<Rightarrow> nat \<Rightarrow> bool" where
  "owns s userId inventoryId =
     list_ex (\<lambda>r. inv_id r = inventoryId \<and> inv_user_id r = userId) (inventory s)"

text \<open>\<^verbatim>\<open>UPDATE location_inventory SET quantity = quantity + $1\<close> on the row of a pair
  (a statement that matches no row changes nothing).\<close>

definition add_quantity :: "nat \<times> nat \<Rightarrow> int \<Rightarrow> db \<Rightarrow> db" where
  "add_quantity k d s =
     (case location_inventory s k of
        None \<Rightarrow> s
      | Some q \<Rightarrow> s\<lparr>location_inventory := (location_inventory s)(k \<mapsto> q + d)\<rparr>)"

text \<open>The foreign keys: a location that has a row, and an operatory reference that is null
  or has a row.\<close>

definition location_exists :: "db \<Rightarrow> nat \<Rightarrow> bool" where
  "location_exists s locationId = list_ex (\<lambda>l. loc_id l = locationId) (locations s)"

definition op_reference_holds :: "db \<Rightarrow> nat option \<Rightarrow> bool" where
  "op_reference_holds s op_id =
     (case op_id of None \<Rightarrow> True | Some i \<Rightarrow> list_ex (\<lambda>row. opr_id row = i) (ops s))"

text \<open>\<^verbatim>\<open>INSERT INTO location_inventory ... VALUES ($1, $2, $3, ...)\<close>; \<open>None\<close> when the
  foreign key on the location refuses the row.\<close>

definition insert_row :: "nat \<times> nat \<Rightarrow> int \<Rightarrow> db \<Rightarrow> db option" where
  "insert_row k q s =
     (if location_exists s (snd k)
      then Some (s\<lparr>location_inventory := (location_inventory s)(k \<mapsto> q)\<rparr>)
      else None)"

text \<open>The message of the error that PostgreSQL raises then.\<close>

definition location_fkey_message :: string where
  "location_fkey_message =
     ''insert or update on table \"location_inventory\" violates foreign key constraint ''
     @ ''\"location_inventory_location_id_fkey\"''"

text \<open>\<^verbatim>\<open>INSERT ... ON CONFLICT (inventory_id, location_id) DO UPDATE SET quantity =
  location_inventory.quantity + $3\<close>.\<close>

definition upsert_quantity :: "nat \<times> nat \<Rightarrow> int \<Rightarrow> db \<Rightarrow> db option" where
  "upsert_quantity k d s =
     (case location_inventory s k of
        None \<Rightarrow> insert_row k d s
      | Some q \<Rightarrow> Some (s\<lparr>location_inventory := (location_inventory s)(k \<mapsto> q + d)\<rparr>))"

text \<open>The quantity a report reads for a pair: the row's, and nothing where there is no row.\<close>

definition quantity_at :: "db \<Rightarrow> nat \<Rightarrow> nat \<Rightarrow> int" where
  "quantity_at s inventoryId locationId =
     (case location_inventory s (inventoryId, locationId) of None \<Rightarrow> 0 | Some q \<Rightarrow> q)"

section \<open>POST /api/inventory/transfer\<close>

text \<open>Source: routes/inventory.js, in \<^verbatim>\<open>src/unnamed/part_003\<close>, lines 515 to 585.\<close>

record transfer_req =
  tr_inventory_id :: nat
  tr_source_location_id :: nat
  tr_destination_location_id :: nat
  tr_quantity :: int

text \<open>
  The handler answers 400 before the transaction when a field is falsy. Inside the
  transaction a failed ownership check rolls back (403); a missing source row and an
  insufficient source quantity throw, and so does the driver when the destination row is
  refused; the \<^verbatim>\<open>catch\<close> block rolls back and answers 500 with the error's message. A
  rolled-back transaction leaves the store as it was.
\<close>

definition inventory_transfer :: "nat \<Rightarrow> transfer_req \<Rightarrow> db \<Rightarrow> db \<times> response" where
  "inventory_transfer userId r s =
     (let inventory_id = tr_inventory_id r;
          source_location_id = tr_source_location_id r;
          destination_location_id = tr_destination_location_id r;
          quantity = tr_quantity r
      in if inventory_id = 0 \<or> source_location_id = 0 \<or> destination_location_id = 0
            \<or> quantity = 0
         then (s, Response 400 (Error ''Missing required fields''))
         else if \<not> owns s userId inventory_id
         then (s, Response 403 (Error ''Unauthorized access to inventory''))
         else (case location_inventory s (inventory_id, source_location_id) of
                 None \<Rightarrow> (s, Response 500 (Error ''Source inventory not found''))
               | Some sourceQty \<Rightarrow>
                   if sourceQty < quantity
                   then (s, Response 500 (Error ''Not enough inventory at source location''))
                   else (case upsert_quantity (inventory_id, destination_location_id) quantity
                                (add_quantity (inventory_id, source_location_id) (- quantity) s) of
                           None \<Rightarrow> (s, Response 500 (Error location_fkey_message))
                         | Some s' \<Rightarrow> (s', Response 200 Success))))"

section \<open>POST /api/inventory/consume\<close>

text \<open>Source: routes/inventory.js, in \<^verbatim>\<open>src/unnamed/part_003\<close>, lines 590 to 658.\<close>

record consume_item =
  ci_inventory_id :: nat
  ci_quantity :: int

record consume_req =
  cr_location :: nat
  cr_supplies :: "consume_item list"

text \<open>
  The loop over \<^verbatim>\<open>supplies\<close>, inside the transaction. \<open>Inl\<close> is a branch that rolled
  back and answered; \<open>Inr\<close> is the working state after the list, which the handler
  commits.
\<close>

fun consume_loop :: "nat \<Rightarrow> nat \<Rightarrow> consume_item list \<Rightarrow> db \<Rightarrow> response + db" where
  "consume_loop userId location [] s = Inr s"
| "consume_loop userId location (item # rest) s =
     (let inventoryId = ci_inventory_id item;
          quantityToConsume = ci_quantity item
      in if inventoryId = 0 \<or> quantityToConsume \<le> 0
         then consume_loop userId location rest s
         else if \<not> owns s userId inventoryId
         then Inl (Response 403
                (Error (''Unauthorized access to item ID '' @ show_nat inventoryId)))
         else (case location_inventory s (inventoryId, location) of
                 None \<Rightarrow>
                   Inl (Response 404
                     (Error (''Item ID '' @ show_nat inventoryId @ '' not found at location ''
                             @ show_nat location)))
               | Some currentQty \<Rightarrow>
                   if currentQty < quantityToConsume
                   then Inl (Response 400
                          (Error (''Not enough quantity of item ID '' @ show_nat inventoryId
                                  @ '' at location '' @ show_nat location)))
                   else consume_loop userId location rest
                          (add_quantity (inventoryId, location) (- quantityToConsume) s)))"

definition inventory_consume :: "nat \<Rightarrow> consume_req \<Rightarrow> db \<Rightarrow> db \<times> response" where
  "inventory_consume userId r s =
     (if cr_location r = 0 \<or> cr_supplies r = []
      then (s, Response 400 (Error ''Missing location or supplies''))
      else (case consume_loop userId (cr_location r) (cr_supplies r) s of
              Inl resp \<Rightarrow> (s, resp)
            | Inr s' \<Rightarrow> (s', Response 200 (Message ''Inventory consumed successfully''))))"

section \<open>POST /api/barcode/checkin\<close>

text \<open>Source: routes/barcode.js, in \<^verbatim>\<open>src/unnamed/part_010\<close>, lines 96 to 145.\<close>

text \<open>\<open>ck_quantity\<close> is \<^verbatim>\<open>parseInt(quantity, 10)\<close>, \<open>None\<close> for \<^verbatim>\<open>NaN\<close>.\<close>

record checkin_req =
  ck_inventory_id :: nat
  ck_quantity :: "int option"
  ck_location_id :: nat

definition barcode_checkin :: "checkin_req \<Rightarrow> db \<Rightarrow> db \<times> response" where
  "barcode_checkin r s =
     (case ck_quantity r of
        None \<Rightarrow> (s, Response 400 (Error ''Invalid quantity''))
      | Some qty \<Rightarrow>
          (let result = location_inventory s (ck_inventory_id r, ck_location_id r);
               currentQty = (case result of None \<Rightarrow> 0 | Some q \<Rightarrow> q);
               newQty = currentQty + qty
           in if newQty < 0
              then (s, Response 400 (Error ''Insufficient quantity at location''))
              else (case result of
                      Some q \<Rightarrow>
                        (s\<lparr>location_inventory :=
                             (location_inventory s)((ck_inventory_id r, ck_location_id r) \<mapsto> newQty)\<rparr>,
                         Response 200 Success)
                    | None \<Rightarrow>
                        if qty < 0
                        then (s, Response 400
                               (Error ''Cannot subtract from non-existent inventory at location''))
                        else (case insert_row (ck_inventory_id r, ck_location_id r) qty s of
                                None \<Rightarrow> (s, Response 500 (Error ''Check-in failed''))
                              | Some s' \<Rightarrow> (s', Response 200 Success)))))"

section \<open>POST /api/barcode/consume\<close>

text \<open>Source: routes/barcode.js, in \<^verbatim>\<open>src/unnamed/part_010\<close>, lines 148 to 202.\<close>

text \<open>The scan consume takes the same request. It refuses a quantity that is not
  positive, looks the item up by its id and compares the owner of the first row, and
  subtracts only what the row holds.\<close>

definition barcode_consume :: "nat \<Rightarrow> checkin_req \<Rightarrow> db \<Rightarrow> db \<times> response" where
  "barcode_consume userId r s =
     (case ck_quantity r of
        None \<Rightarrow> (s, Response 400 (Error ''Invalid quantity''))
      | Some qty \<Rightarrow>
          if qty \<le> 0 then (s, Response 400 (Error ''Invalid quantity''))
          else (case filter (\<lambda>row. inv_id row = ck_inventory_id r) (inventory s) of
                  [] \<Rightarrow> (s, Response 403
                           (Error ''Unauthorized: Inventory does not belong to this user.''))
                | invCheck # _ \<Rightarrow>
                    if inv_user_id invCheck \<noteq> userId
                    then (s, Response 403
                           (Error ''Unauthorized: Inventory does not belong to this user.''))
                    else (case location_inventory s (ck_inventory_id r, ck_location_id r) of
                            None \<Rightarrow>
                              (s, Response 400 (Error ''Inventory not found at this location''))
                          | Some currentQty \<Rightarrow>
                              if currentQty < qty
                              then (s, Response 400 (Error ''Insufficient quantity at location''))
                              else (add_quantity (ck_inventory_id r, ck_location_id r) (- qty) s,
                                    Response 200 Success))))"

section \<open>POST /api/op-supplies\<close>

text \<open>Source: the operatory routes, in \<^verbatim>\<open>src/unnamed/part_000\<close>, lines 102 to 166.\<close>

text \<open>
  Assigning a supply to an operatory deducts from the unassigned quantity of
  \<^verbatim>\<open>supplies\<close> and accumulates into the \<^verbatim>\<open>op_supplies\<close> rows of the pair.
  \<open>as_quantity\<close> is \<^verbatim>\<open>parseInt(quantity, 10)\<close>, \<open>None\<close> for \<^verbatim>\<open>NaN\<close>. A request
  without an operatory passes null (\<open>None\<close>), which no comparison \<^verbatim>\<open>op_id = $1\<close>
  matches. The server's index.js does not mount this router.
\<close>

record assign_req =
  as_op_id :: "nat option"
  as_supply_id :: nat
  as_quantity :: "int option"

definition op_supplies_assign :: "assign_req \<Rightarrow> db \<Rightarrow> db \<times> response" where
  "op_supplies_assign r s =
     (let op_id = as_op_id r; supply_id = as_supply_id r
      in case as_quantity r of
           None \<Rightarrow> (s, Response 400 (Error ''Quantity must be greater than zero''))
         | Some qty \<Rightarrow>
             if qty \<le> 0
             then (s, Response 400 (Error ''Quantity must be greater than zero''))
             else (case supplies s supply_id of
                     None \<Rightarrow> (s, Response 404 (Error ''Supply not found''))
                   | Some supplyRow \<Rightarrow>
                       (let unassigned = sup_quantity supplyRow
                        in if qty > unassigned
                           then (s, Response 400
                                  (Error (''Not enough unassigned inventory. Only ''
                                          @ show_int unassigned @ '' available.'')))
                           else (let s1 = s\<lparr>supplies := (supplies s)(supply_id \<mapsto>
                                             supplyRow\<lparr>sup_quantity := sup_quantity supplyRow - qty\<rparr>)\<rparr>;
                                     matches = (\<lambda>row. op_id \<noteq> None \<and> os_op_id row = op_id
                                                       \<and> os_supply_id row = supply_id)
                                 in case filter matches (op_supplies s1) of
                                      existing # _ \<Rightarrow>
                                        (s1\<lparr>op_supplies :=
                                             map (\<lambda>row. if matches row
                                                         then row\<lparr>os_quantity := os_quantity row + qty\<rparr>
                                                         else row) (op_supplies s1)\<rparr>,
                                         Response 200
                                           (OpSupplyRow (existing\<lparr>os_quantity := os_quantity existing + qty\<rparr>)))
                                    | [] \<Rightarrow>
                                        (let inserted = \<lparr>os_op_id = op_id, os_supply_id = supply_id,
                                                          os_quantity = qty\<rparr>
                                         in if op_reference_holds s1 op_id
                                            then (s1\<lparr>op_supplies := op_supplies s1 @ [inserted]\<rparr>,
                                                  Response 200 (OpSupplyRow inserted))
                                            else (s, Response 500
                                                   (Error ''Could not assign supply to operatory'')))))))"

section \<open>POST /api/logs\<close>

text \<open>Source: \<^verbatim>\<open>src/routes/logs.js\<close>, lines 9 to 65.\<close>

text \<open>\<open>lr_procedure_id\<close> is \<open>0\<close> when the request carries none (\<^verbatim>\<open>procedure_id || null\<close>);
  \<open>lr_op_id\<close> is \<open>None\<close> when it carries no operatory (the driver passes null).\<close>

record log_req =
  lr_user_id :: nat
  lr_op_id :: "nat option"
  lr_supply_id :: nat
  lr_quantity :: int
  lr_action :: string
  lr_procedure_id :: nat

text \<open>
  The handler reads the supply's cost, updates the operatory rows and the global row with
  \<^verbatim>\<open>quantity - $1\<close> when the action is \<^verbatim>\<open>'use'\<close> and \<^verbatim>\<open>quantity + $1\<close> otherwise, and
  inserts the log row. A missing supply is thrown to the \<^verbatim>\<open>catch\<close> block, and so is the
  refusal of the log row for an operatory that has no row (rollback, 500).
  \<^verbatim>\<open>unitCost\<close> is \<^verbatim>\<open>parseFloat(cost_per_unit || 0)\<close> and \<^verbatim>\<open>totalCost\<close> is
  \<^verbatim>\<open>unitCost * quantity\<close>, both in the arithmetic \<open>js\<close> of JavaScript numbers.
\<close>

definition logs_post :: "js_numbers \<Rightarrow> log_req \<Rightarrow> db \<Rightarrow> db \<times> response" where
  "logs_post js r s =
     (let op_id = lr_op_id r; supply_id = lr_supply_id r; quantity = lr_quantity r;
          action = lr_action r
      in case supplies s supply_id of
           None \<Rightarrow> (s, Response 500 (Error ''Failed to log supply usage''))
         | Some supplyRow \<Rightarrow>
             (let unitCost = js_parseFloat js
                               (case sup_cost_per_unit supplyRow of None \<Rightarrow> 0 | Some c \<Rightarrow> c);
                  totalCost = js_times js unitCost (of_int quantity);
                  s1 = s\<lparr>op_supplies :=
                         map (\<lambda>row. if op_id \<noteq> None \<and> os_op_id row = op_id
                                        \<and> os_supply_id row = supply_id
                                     then row\<lparr>os_quantity :=
                                            (if action = ''use'' then os_quantity row - quantity
                                             else os_quantity row + quantity)\<rparr>
                                     else row) (op_supplies s)\<rparr>;
                  s2 = s1\<lparr>supplies := (supplies s1)(supply_id \<mapsto>
                         supplyRow\<lparr>sup_quantity :=
                           (if action = ''use'' then sup_quantity supplyRow - quantity
                            else sup_quantity supplyRow + quantity)\<rparr>)\<rparr>;
                  logInsert = \<lparr>log_user_id = lr_user_id r, log_op_id = op_id,
                               log_supply_id = supply_id, log_quantity = quantity,
                               log_action = action, log_unit_cost = unitCost,
                               log_total_cost = totalCost,
                               log_procedure_id =
                                 (if lr_procedure_id r = 0 then None else Some (lr_procedure_id r))\<rparr>
              in if op_reference_holds s2 op_id
                 then (s2\<lparr>supply_logs := supply_logs s2 @ [logInsert]\<rparr>,
                       Response 200 (LogRow logInsert))
                 else (s, Response 500 (Error ''Failed to log supply usage''))))"

section \<open>PUT /api/supplies/:id\<close>

text \<open>Source: \<^verbatim>\<open>src/routes/supplies.js\<close>, lines 101 to 141.\<close>



section \<open>POST /api/inventory/add\<close>

text \<open>Source: routes/inventory.js, in \<^verbatim>\<open>src/unnamed/part_003\<close>, lines 222 to 361.\<close>

subsection \<open>The name lookup: \<^verbatim>\<open>name ILIKE $1\<close>\<close>

text \<open>
  The handler passes the new item's name as the pattern of \<^verbatim>\<open>ILIKE\<close>. In a PostgreSQL
  pattern \<^verbatim>\<open>%\<close> stands for any sequence of characters, \<^verbatim>\<open>_\<close> for any one character,
  and a backslash makes the next pattern character literal; a pattern that stops after a
  backslash is an error once the matcher reaches it with text left (\<open>None\<close>).
  \<^verbatim>\<open>ILIKE\<close> compares without regard to case: both sides are lower-cased.
\<close>

definition backslash :: char where
  "backslash = CHR 0x5C"

fun like_match :: "string \<Rightarrow> string \<Rightarrow> bool option" where
  "like_match [] t = Some (t = [])"
| "like_match (p # ps) t =
     (if p = CHR ''%'' then
        (case like_match ps t of
           None \<Rightarrow> None
         | Some True \<Rightarrow> Some True
         | Some False \<Rightarrow> (case t of [] \<Rightarrow> Some False | c # cs \<Rightarrow> like_match (p # ps) cs))
      else if p = CHR ''_'' then
        (case t of [] \<Rightarrow> Some False | c # cs \<Rightarrow> like_match ps cs)
      else if p = backslash then
        (case ps of
           [] \<Rightarrow> (if t = [] then Some False else None)
         | q # qs \<Rightarrow>
             (case t of
                [] \<Rightarrow> Some False
              | c # cs \<Rightarrow> if c = q then like_match qs cs else Some False))
      else (case t of
              [] \<Rightarrow> Some False
            | c # cs \<Rightarrow> if c = p then like_match ps cs else Some False))"

definition lower :: "char \<Rightarrow> char" where
  "lower c =
     (case map_of (zip ''ABCDEFGHIJKLMNOPQRSTUVWXYZ'' ''abcdefghijklmnopqrstuvwxyz'') c of
        None \<Rightarrow> c
      | Some l \<Rightarrow> l)"

definition ilike :: "string \<Rightarrow> string \<Rightarrow> bool option" where
  "ilike t pattern = like_match (map lower pattern) (map lower t)"

text \<open>\<^verbatim>\<open>SELECT id FROM inventory WHERE name ILIKE $1 AND user_id = $2\<close>: the ids in row
  order. The two conditions are evaluated as they are written, the pattern first and on
  every row, so that the statement raises (\<open>None\<close>) when the pattern raises on any row
  of the table.\<close>

fun select_by_name :: "inventory_row list \<Rightarrow> string \<Rightarrow> nat \<Rightarrow> nat list option" where
  "select_by_name [] name userId = Some []"
| "select_by_name (r # rs) name userId =
     (case ilike (inv_name r) name of
        None \<Rightarrow> None
      | Some b \<Rightarrow>
          (case select_by_name rs name userId of
             None \<Rightarrow> None
           | Some ids \<Rightarrow> Some (if b \<and> inv_user_id r = userId then inv_id r # ids else ids)))"

text \<open>\<^verbatim>\<open>SELECT id, name FROM inventory WHERE barcode = $1 AND user_id = $2\<close>.\<close>

definition select_by_barcode :: "inventory_row list \<Rightarrow> string \<Rightarrow> nat \<Rightarrow> inventory_row list" where
  "select_by_barcode rows barcode userId =
     filter (\<lambda>r. inv_barcode r = Some barcode \<and> inv_user_id r = userId) rows"

text \<open>\<^verbatim>\<open>INSERT INTO inventory ... RETURNING id\<close>: the serial column hands out an id that no
  row carries; the model takes the successor of the largest id in the table.\<close>

definition fresh_id :: "inventory_row list \<Rightarrow> nat" where
  "fresh_id rows = Suc (fold max (map inv_id rows) 0)"

subsection \<open>The handler\<close>

record supply_item =
  si_isNew :: bool
  si_inventory_id :: nat
  si_name :: string
  si_quantity :: int
  si_barcode :: string
  si_cost_per_unit :: "real option"

record add_req =
  ar_destination :: string
  ar_location :: nat
  ar_supplies :: "supply_item list"

text \<open>
  The first half of the loop body settles \<^verbatim>\<open>inventoryId\<close>: \<open>Skip\<close> is \<^verbatim>\<open>continue\<close>,
  \<open>Abort\<close> a branch that rolled back and answered, \<open>Use\<close> the id and the working
  state (with the new catalog row when one was inserted). The insertion of a catalog row
  is refused when barcodes are unique over all users and a row of another user carries
  the barcode; the \<^verbatim>\<open>catch\<close> block answers that with 400.
\<close>

datatype resolved = Skip | Abort response | Use nat db

definition resolve_item :: "nat \<Rightarrow> supply_item \<Rightarrow> db \<Rightarrow> resolved" where
  "resolve_item userId item s =
     (if si_isNew item then
        (let name = si_name item; quantity = si_quantity item; barcode = si_barcode item
         in if name = [] \<or> quantity \<le> 0 then Skip
            else (case select_by_name (inventory s) name userId of
                    None \<Rightarrow> Abort (Response 500 (Error ''Server error while adding inventory''))
                  | Some (existing # _) \<Rightarrow> Use existing s
                  | Some [] \<Rightarrow>
                      (case (if barcode \<noteq> [] then select_by_barcode (inventory s) barcode userId
                             else []) of
                         existingBarcode # _ \<Rightarrow>
                           Abort (Response 400
                             (Error (''Barcode \"'' @ barcode @ ''\" is already used by item \"''
                                     @ inv_name existingBarcode @ ''\"'')))
                       | [] \<Rightarrow>
                           if inventory_barcode_key s \<and> barcode \<noteq> []
                              \<and> list_ex (\<lambda>row. inv_barcode row = Some barcode) (inventory s)
                           then Abort (Response 400
                                  (Error ''This barcode is already used by another item in your inventory.''))
                           else
                           (let newId = fresh_id (inventory s);
                                row = \<lparr>inv_id = newId, inv_name = name,
                                       inv_barcode = (if barcode = [] then None else Some barcode),
                                       inv_cost_per_unit =
                                         (case si_cost_per_unit item of
                                            None \<Rightarrow> None
                                          | Some c \<Rightarrow> if c = 0 then None else Some c),
                                       inv_user_id = userId\<rparr>
                            in Use newId (s\<lparr>inventory := inventory s @ [row]\<rparr>)))))
      else
        (let inventoryId = si_inventory_id item
         in if inventoryId = 0 \<or> si_quantity item \<le> 0 then Skip
            else if \<not> owns s userId inventoryId
            then Abort (Response 403 (Error ''Inventory does not belong to current user.''))
            else Use inventoryId s))"

text \<open>\<^verbatim>\<open>item.name || inventoryId\<close> inside a template literal.\<close>

definition item_label :: "supply_item \<Rightarrow> nat \<Rightarrow> string" where
  "item_label item inventoryId = (if si_name item \<noteq> [] then si_name item else show_nat inventoryId)"

text \<open>The second half of the loop body: the optional deduction from the Common Area and
  the write to the target location, which the \<^verbatim>\<open>catch\<close> block answers with 500 when the
  location has no row.\<close>

definition place_item :: "nat \<Rightarrow> string \<Rightarrow> nat \<Rightarrow> supply_item \<Rightarrow> nat \<Rightarrow> db \<Rightarrow> response + db" where
  "place_item commonAreaId destination location item inventoryId s =
     (let deducted =
            (if destination = ''transfer'' then
               (case location_inventory s (inventoryId, commonAreaId) of
                  None \<Rightarrow>
                    Inl (Response 400
                      (Error (''Not enough \"'' @ item_label item inventoryId
                              @ ''\" in Common Area to transfer.'')))
                | Some fromQty \<Rightarrow>
                    if fromQty < si_quantity item
                    then Inl (Response 400
                           (Error (''Not enough \"'' @ item_label item inventoryId
                                   @ ''\" in Common Area to transfer.'')))
                    else Inr (add_quantity (inventoryId, commonAreaId) (- si_quantity item) s,
                              location))
             else Inr (s, if destination = ''common_area'' then commonAreaId else location))
      in case deducted of
           Inl resp \<Rightarrow> Inl resp
         | Inr (s1, targetLocationId) \<Rightarrow>
             if targetLocationId = 0
             then Inl (Response 400
                    (Error (''No valid location selected for \"'' @ item_label item inventoryId
                            @ ''\".'')))
             else (case location_inventory s1 (inventoryId, targetLocationId) of
                     Some _ \<Rightarrow> Inr (add_quantity (inventoryId, targetLocationId) (si_quantity item) s1)
                   | None \<Rightarrow>
                       (case insert_row (inventoryId, targetLocationId) (si_quantity item) s1 of
                          None \<Rightarrow> Inl (Response 500 (Error ''Server error while adding inventory''))
                        | Some s2 \<Rightarrow> Inr s2)))"

fun add_loop :: "nat \<Rightarrow> nat \<Rightarrow> string \<Rightarrow> nat \<Rightarrow> supply_item list \<Rightarrow> db \<Rightarrow> response + db" where
  "add_loop userId commonAreaId destination location [] s = Inr s"
| "add_loop userId commonAreaId destination location (item # rest) s =
     (case resolve_item userId item s of
        Skip \<Rightarrow> add_loop userId commonAreaId destination location rest s
      | Abort resp \<Rightarrow> Inl resp
      | Use inventoryId s1 \<Rightarrow>
          (case place_item commonAreaId destination location item inventoryId s1 of
             Inl resp \<Rightarrow> Inl resp
           | Inr s2 \<Rightarrow> add_loop userId commonAreaId destination location rest s2))"

definition inventory_add :: "nat \<Rightarrow> add_req \<Rightarrow> db \<Rightarrow> db \<times> response" where
  "inventory_add userId r s =
     (case filter (\<lambda>l. loc_name l = ''Common Area'' \<and> loc_user_id l = userId) (locations s) of
        [] \<Rightarrow> (s, Response 400 (Error ''Common Area not found for this user.''))
      | common # _ \<Rightarrow>
          if loc_id common = 0
          then (s, Response 400 (Error ''Common Area not found for this user.''))
          else (case add_loop userId (loc_id common) (ar_destination r) (ar_location r)
                       (ar_supplies r) s of
                  Inl resp \<Rightarrow> (s, resp)
                | Inr s' \<Rightarrow> (s', Response 200 (Message ''Inventory added successfully!''))))"

section \<open>The retry helpers: \<^verbatim>\<open>query\<close> and \<^verbatim>\<open>transaction\<close>\<close>

text \<open>Source: db/utils.js, the second file of \<^verbatim>\<open>src/routes/auth.js\<close>, lines 33 to 119.\<close>

text \<open>
  An error of the driver carries a code (the empty string when it has none) and a
  message. What the pool does at each call is outside the program: \<open>poolQuery k\<close> is the
  outcome of the \<open>k\<close>-th call of \<^verbatim>\<open>pool.query\<close>. A run of a helper is what it settles
  with, how many attempts it made, and the delays it slept in between, in milliseconds.
  \<^verbatim>\<open>lastError\<close> is undefined until an attempt has failed (\<open>None\<close>).
\<close>

record pg_error =
  err_code :: string
  err_message :: string

datatype 'a outcome = Resolved 'a | Rejected pg_error

datatype 'a settled = Returned 'a | Thrown "pg_error option"

record 'a run =
  result :: "'a settled"
  calls :: nat
  waits :: "nat list"

text \<open>The codes after which neither helper tries again.\<close>

definition no_retry :: "pg_error \<Rightarrow> bool" where
  "no_retry error =
     (err_code error = ''23505'' \<or> err_code error = ''23503'' \<or>
      err_code error = ''42P01'' \<or> err_code error = ''42703'')"

text \<open>\<^verbatim>\<open>Math.min(1000 * Math.pow(2, attempt - 1), 5000)\<close>.\<close>

definition backoff :: "nat \<Rightarrow> nat" where
  "backoff attempt = min (1000 * 2 ^ (attempt - 1)) 5000"

function query_from ::
  "(nat \<Rightarrow> 'a outcome) \<Rightarrow> nat \<Rightarrow> nat \<Rightarrow> pg_error option \<Rightarrow> nat list \<Rightarrow> 'a run" where
  "query_from poolQuery retries attempt lastError slept =
     (if attempt \<le> retries then
        (case poolQuery attempt of
           Resolved v \<Rightarrow> \<lparr>result = Returned v, calls = attempt, waits = slept\<rparr>
         | Rejected error \<Rightarrow>
             if no_retry error
             then \<lparr>result = Thrown (Some error), calls = attempt, waits = slept\<rparr>
             else query_from poolQuery retries (attempt + 1) (Some error)
                    (if attempt < retries then slept @ [backoff attempt] else slept))
      else \<lparr>result = Thrown lastError, calls = attempt - 1, waits = slept\<rparr>)"
  by pat_completeness auto
termination
  by (relation "measure (\<lambda>(poolQuery, retries, attempt, lastError, slept). Suc retries - attempt)")
    auto

declare query_from.simps [simp del]

definition query :: "(nat \<Rightarrow> 'a outcome) \<Rightarrow> nat \<Rightarrow> 'a run" where
  "query poolQuery retries = query_from poolQuery retries 1 None []"

text \<open>
  \<^verbatim>\<open>transaction\<close> takes a client from the pool at the start of every attempt, outside
  its \<^verbatim>\<open>try\<close>: a rejected \<^verbatim>\<open>pool.connect()\<close> leaves the function at once.
  \<^verbatim>\<open>BEGIN\<close>, the callback and \<^verbatim>\<open>COMMIT\<close> are inside the \<^verbatim>\<open>try\<close>; when one of them
  rejects, the helper rolls back (a failing rollback is only logged) and goes on as
  \<^verbatim>\<open>query\<close> does.
\<close>

datatype 'a attempt = ConnectRejected pg_error | BodyRejected pg_error | Committed 'a

function transaction_from ::
  "(nat \<Rightarrow> 'a attempt) \<Rightarrow> nat \<Rightarrow> nat \<Rightarrow> pg_error option \<Rightarrow> nat list \<Rightarrow> 'a run" where
  "transaction_from callback retries attempt lastError slept =
     (if attempt \<le> retries then
        (case callback attempt of
           ConnectRejected error \<Rightarrow>
             \<lparr>result = Thrown (Some error), calls = attempt, waits = slept\<rparr>
         | Committed v \<Rightarrow> \<lparr>result = Returned v, calls = attempt, waits = slept\<rparr>
         | BodyRejected error \<Rightarrow>
             if no_retry error
             then \<lparr>result = Thrown (Some error), calls = attempt, waits = slept\<rparr>
             else transaction_from callback retries (attempt + 1) (Some error)
                    (if attempt < retries then slept @ [backoff attempt] else slept))
      else \<lparr>result = Thrown lastError, calls = attempt - 1, waits = slept\<rparr>)"
  by pat_completeness auto
termination
  by (relation "measure (\<lambda>(callback, retries, attempt, lastError, slept). Suc retries - attempt)")
    auto

declare transaction_from.simps [simp del]

definition transaction :: "(nat \<Rightarrow> 'a attempt) \<Rightarrow> nat \<Rightarrow> 'a run" where
  "transaction callback retries = transaction_from callback retries 1 None []"

section \<open>Notions used in the statements\<close>


text \<open>What \<^verbatim>\<open>/logs\<close> makes of a quantity: \<^verbatim>\<open>quantity - $1\<close> for the action
  \<^verbatim>\<open>'use'\<close>, \<^verbatim>\<open>quantity + $1\<close> for any other.\<close>

definition moved :: "log_req \<Rightarrow> int \<Rightarrow> int" where
  "moved r q = (if lr_action r = ''use'' then q - lr_quantity r else q + lr_quantity r)"

text \<open>The invariant of the ledger: no row of the three stock tables holds a negative
  quantity.\<close>

definition nonneg :: "db \<Rightarrow> bool" where
  "nonneg s \<longleftrightarrow>
     (\<forall>k q. location_inventory s k = Some q \<longrightarrow> 0 \<le> q)
     \<and> (\<forall>i row. supplies s i = Some row \<longrightarrow> 0 \<le> sup_quantity row)
     \<and> (\<forall>row \<in> set (op_supplies s). 0 \<le> os_quantity row)"

text \<open>The movements as requests, what each leaves in the store, and the movements whose
  handler checks the quantity before it subtracts: all but the logging call and the
  transfer of a quantity that is not positive.\<close>

datatype operation =
    Receive nat add_req
  | Consume nat consume_req
  | Transfer nat transfer_req
  | CheckIn checkin_req
  | ScanConsume nat checkin_req
  | Assign assign_req
  | Log log_req

fun perform :: "js_numbers \<Rightarrow> operation \<Rightarrow> db \<Rightarrow> db" where
  "perform js (Receive userId r) s = fst (inventory_add userId r s)"
| "perform js (Consume userId r) s = fst (inventory_consume userId r s)"
| "perform js (Transfer userId r) s = fst (inventory_transfer userId r s)"
| "perform js (CheckIn r) s = fst (barcode_checkin r s)"
| "perform js (ScanConsume userId r) s = fst (barcode_consume userId r s)"
| "perform js (Assign r) s = fst (op_supplies_assign r s)"
| "perform js (Log r) s = fst (logs_post js r s)"

fun guarded :: "operation \<Rightarrow> bool" where
  "guarded (Transfer userId r) = (0 < tr_quantity r)"
| "guarded (Log r) = False"
| "guarded _ = True"

section \<open>Example data\<close>

text \<open>The scenario of the specification: one account with two locations and one
  operatory, Gauze, ten units in the first location; and a supply of the operatory tables
  with two units assigned.\<close>

definition gauze_db :: db where
  "gauze_db =
     \<lparr>inventory = [\<lparr>inv_id = 1, inv_name = ''Gauze'', inv_barcode = None,
                     inv_cost_per_unit = None, inv_user_id = 1\<rparr>,
                   \<lparr>inv_id = 2, inv_name = ''Gloves'', inv_barcode = None,
                     inv_cost_per_unit = None, inv_user_id = 1\<rparr>],
      locations = [\<lparr>loc_id = 1, loc_name = ''Common Area'', loc_user_id = 1\<rparr>,
                   \<lparr>loc_id = 2, loc_name = ''Room B'', loc_user_id = 1\<rparr>],
      location_inventory = [(1, 1) \<mapsto> 10, (2, 1) \<mapsto> 5],
      supplies = [1 \<mapsto> \<lparr>sup_quantity = 5, sup_cost_per_unit = Some (5 / 2)\<rparr>],
      ops = [\<lparr>opr_id = 1, opr_name = ''Operatory 1'', opr_user_id = 1\<rparr>],
      op_supplies = [\<lparr>os_op_id = Some 1, os_supply_id = 1, os_quantity = 2\<rparr>],
      supply_logs = [], inventory_barcode_key = False\<rparr>"





text \<open>Three units of the supply used in the operatory that holds two.\<close>

definition use_three :: log_req where
  "use_three = \<lparr>lr_user_id = 1, lr_op_id = Some 1, lr_supply_id = 1, lr_quantity = 3,
                 lr_action = ''use'', lr_procedure_id = 0\<rparr>"

text \<open>Numbers that are read and multiplied without rounding, as doubles are where the
  decimal and the product are doubles themselves (2.5, 3 and 7.5 are).\<close>

definition exact_numbers :: js_numbers where
  "exact_numbers = \<lparr>js_parseFloat = (\<lambda>x. x), js_times = (\<lambda>x y. x * y)\<rparr>"

text \<open>A new item whose name holds a backslash, added to the Common Area.\<close>

definition slash_item :: supply_item where
  "slash_item = \<lparr>si_isNew = True, si_inventory_id = 0,
                  si_name = [CHR ''A'', backslash, CHR ''B''], si_quantity = 1,
                  si_barcode = [], si_cost_per_unit = None\<rparr>"

definition slash_add :: add_req where
  "slash_add = \<lparr>ar_destination = ''common_area'', ar_location = 0, ar_supplies = [slash_item]\<rparr>"

text \<open>Errors of the driver, and pools that fail with them: twice before an answer, or
  at every call.\<close>

definition econnreset :: pg_error where
  "econnreset = \<lparr>err_code = ''ECONNRESET'', err_message = ''read ECONNRESET''\<rparr>"

definition unique_violation :: pg_error where
  "unique_violation = \<lparr>err_code = ''23505'', err_message = ''duplicate key value''\<rparr>"

definition not_null_violation :: pg_error where
  "not_null_violation = \<lparr>err_code = ''23502'', err_message = ''null value in column''\<rparr>"

definition flaky_query :: "nat \<Rightarrow> nat outcome" where
  "flaky_query k = (if k < 3 then Rejected econnreset else Resolved k)"

definition flaky_body :: "nat \<Rightarrow> nat attempt" where
  "flaky_body k = (if k < 3 then BodyRejected econnreset else Committed k)"

definition failing_query :: "pg_error \<Rightarrow> nat \<Rightarrow> nat outcome" where
  "failing_query error k = Rejected error"

definition failing_body :: "pg_error \<Rightarrow> nat \<Rightarrow> nat attempt" where
  "failing_body error k = BodyRejected error"

section \<open>Properties of the handlers\<close>

lemmas stmt_defs = upsert_quantity_def add_quantity_def insert_row_def quantity_at_def

lemmas key_defs = location_exists_def op_reference_holds_def

subsection \<open>Transfer\<close>

text \<open>
  Claim C5. A transfer that is answered 200 leaves the sum of the item's quantities at
  the source and the destination as it was (a location without a row counts as 0). When
  the two locations differ, the source row ends at its old quantity less the transferred
  one and the destination row, created if it was absent, at its old quantity plus the
  transferred one.
\<close>

theorem transfer_conserves:
  assumes "status (snd (inventory_transfer userId r s)) = 200"
  shows "quantity_at (fst (inventory_transfer userId r s)) (tr_inventory_id r) (tr_source_location_id r)
         + quantity_at (fst (inventory_transfer userId r s)) (tr_inventory_id r) (tr_destination_location_id r)
       = quantity_at s (tr_inventory_id r) (tr_source_location_id r)
         + quantity_at s (tr_inventory_id r) (tr_destination_location_id r)
       \<and> (tr_source_location_id r \<noteq> tr_destination_location_id r \<longrightarrow>
            location_inventory (fst (inventory_transfer userId r s))
                (tr_inventory_id r, tr_source_location_id r)
              = Some (quantity_at s (tr_inventory_id r) (tr_source_location_id r) - tr_quantity r)
          \<and> location_inventory (fst (inventory_transfer userId r s))
                (tr_inventory_id r, tr_destination_location_id r)
              = Some (quantity_at s (tr_inventory_id r) (tr_destination_location_id r) + tr_quantity r))"
  using assms
  by (auto simp: inventory_transfer_def Let_def stmt_defs split: if_splits option.splits)

theorem transfer_conserves_witness:
  "status (snd (inventory_transfer 1 \<lparr>tr_inventory_id = 1, tr_source_location_id = 1,
       tr_destination_location_id = 2, tr_quantity = 6\<rparr> gauze_db)) = 200
   \<and> quantity_at (fst (inventory_transfer 1 \<lparr>tr_inventory_id = 1, tr_source_location_id = 1,
       tr_destination_location_id = 2, tr_quantity = 6\<rparr> gauze_db)) 1 1
     + quantity_at (fst (inventory_transfer 1 \<lparr>tr_inventory_id = 1, tr_source_location_id = 1,
       tr_destination_location_id = 2, tr_quantity = 6\<rparr> gauze_db)) 1 2 = 10
   \<and> location_inventory (fst (inventory_transfer 1 \<lparr>tr_inventory_id = 1, tr_source_location_id = 1,
       tr_destination_location_id = 2, tr_quantity = 6\<rparr> gauze_db)) (1, 1) = Some 4
   \<and> location_inventory (fst (inventory_transfer 1 \<lparr>tr_inventory_id = 1, tr_source_location_id = 1,
       tr_destination_location_id = 2, tr_quantity = 6\<rparr> gauze_db)) (1, 2) = Some 6"
proof -
  let ?r = "\<lparr>tr_inventory_id = 1, tr_source_location_id = 1,
       tr_destination_location_id = 2, tr_quantity = 6\<rparr>"
  have h: "status (snd (inventory_transfer 1 ?r gauze_db)) = 200"
    by (simp add: inventory_transfer_def gauze_db_def owns_def stmt_defs key_defs)
  have q: "quantity_at gauze_db 1 1 = 10" "quantity_at gauze_db 1 2 = 0"
    by (simp_all add: quantity_at_def gauze_db_def)
  from transfer_conserves [OF h] show ?thesis using h q by simp
qed

text \<open>
  Claim C7 says that a transfer whose source is its destination is rejected. The handler
  compares neither: with three of the ten units of Gauze moved from the first location to
  itself, it answers 200.
\<close>

theorem transfer_same_location_counterexample:
  "snd (inventory_transfer 1 \<lparr>tr_inventory_id = 1, tr_source_location_id = 1,
       tr_destination_location_id = 1, tr_quantity = 3\<rparr> gauze_db) = Response 200 Success"
  by (simp add: inventory_transfer_def gauze_db_def owns_def stmt_defs key_defs)

text \<open>
  Claim C7, amended. A transfer whose source is its destination is answered 200 exactly
  when the item and the location are given, the quantity is not 0, the item belongs to
  the user and the row holds at least the quantity; these are the checks of every
  transfer. Answered 200 or not, it leaves the store as it was.
\<close>

theorem transfer_same_location:
  assumes "tr_source_location_id r = tr_destination_location_id r"
  shows "(status (snd (inventory_transfer userId r s)) = 200 \<longleftrightarrow>
            tr_inventory_id r \<noteq> 0 \<and> tr_source_location_id r \<noteq> 0 \<and> tr_quantity r \<noteq> 0
            \<and> owns s userId (tr_inventory_id r)
            \<and> (\<exists>q. location_inventory s (tr_inventory_id r, tr_source_location_id r) = Some q
                   \<and> tr_quantity r \<le> q))
       \<and> fst (inventory_transfer userId r s) = s"
  using assms
  by (auto simp: inventory_transfer_def Let_def stmt_defs map_upd_triv split: if_splits option.splits)

theorem transfer_same_location_witness:
  "status (snd (inventory_transfer 1 \<lparr>tr_inventory_id = 1, tr_source_location_id = 1,
       tr_destination_location_id = 1, tr_quantity = 3\<rparr> gauze_db)) = 200
   \<and> fst (inventory_transfer 1 \<lparr>tr_inventory_id = 1, tr_source_location_id = 1,
       tr_destination_location_id = 1, tr_quantity = 3\<rparr> gauze_db) = gauze_db"
proof -
  let ?r = "\<lparr>tr_inventory_id = 1, tr_source_location_id = 1,
       tr_destination_location_id = 1, tr_quantity = 3\<rparr>"
  have h: "tr_source_location_id ?r = tr_destination_location_id ?r" by simp
  have ok: "status (snd (inventory_transfer 1 ?r gauze_db)) = 200"
    by (simp add: inventory_transfer_def gauze_db_def owns_def stmt_defs key_defs)
  from transfer_same_location [OF h, of 1 gauze_db] show ?thesis using ok by blast
qed

subsection \<open>Scan check-in\<close>

text \<open>
  Claim C10 says that a check-in for a pair without a row succeeds exactly when the
  requested quantity is not negative. The row it inserts must refer to a location: five
  units checked in at a location that has no row are refused by the foreign key, and the
  handler rolls back and answers 500.
\<close>

theorem checkin_unknown_location_counterexample:
  "location_inventory gauze_db (1, 99) = None
   \<and> barcode_checkin \<lparr>ck_inventory_id = 1, ck_quantity = Some 5, ck_location_id = 99\<rparr> gauze_db
     = (gauze_db, Response 500 (Error ''Check-in failed''))"
  by (simp add: barcode_checkin_def gauze_db_def stmt_defs key_defs)

text \<open>
  Claim C10, amended. The scan check-in takes any integer quantity. Where the pair has a
  row, the call is answered 200 exactly when the row's quantity plus the requested one is
  not negative, and the row then holds that sum; where it has none, exactly when the
  requested quantity is not negative and the location has a row, and a row with that
  quantity is inserted. A negative quantity is a decrement, and a quantity of 0 is
  accepted. A call that is not answered 200 leaves the store as it was.
\<close>

theorem checkin_accepts_any_integer:
  assumes "ck_quantity r = Some qty"
  shows "(case location_inventory s (ck_inventory_id r, ck_location_id r) of
            Some current \<Rightarrow>
              (status (snd (barcode_checkin r s)) = 200 \<longleftrightarrow> 0 \<le> current + qty)
              \<and> (0 \<le> current + qty \<longrightarrow>
                   location_inventory (fst (barcode_checkin r s)) (ck_inventory_id r, ck_location_id r)
                     = Some (current + qty))
          | None \<Rightarrow>
              (status (snd (barcode_checkin r s)) = 200 \<longleftrightarrow>
                 0 \<le> qty \<and> location_exists s (ck_location_id r))
              \<and> (0 \<le> qty \<and> location_exists s (ck_location_id r) \<longrightarrow>
                   location_inventory (fst (barcode_checkin r s)) (ck_inventory_id r, ck_location_id r)
                     = Some qty))
         \<and> (status (snd (barcode_checkin r s)) \<noteq> 200 \<longrightarrow> fst (barcode_checkin r s) = s)"
  using assms
  by (auto simp: barcode_checkin_def Let_def stmt_defs split: if_splits option.splits)

theorem checkin_accepts_any_integer_witness:
  "status (snd (barcode_checkin
        \<lparr>ck_inventory_id = 1, ck_quantity = Some (- 3), ck_location_id = 1\<rparr> gauze_db)) = 200
   \<and> location_inventory (fst (barcode_checkin
        \<lparr>ck_inventory_id = 1, ck_quantity = Some (- 3), ck_location_id = 1\<rparr> gauze_db)) (1, 1) = Some 7
   \<and> status (snd (barcode_checkin
        \<lparr>ck_inventory_id = 1, ck_quantity = Some 0, ck_location_id = 2\<rparr> gauze_db)) = 200
   \<and> location_inventory (fst (barcode_checkin
        \<lparr>ck_inventory_id = 1, ck_quantity = Some 0, ck_location_id = 2\<rparr> gauze_db)) (1, 2) = Some 0
   \<and> status (snd (barcode_checkin
        \<lparr>ck_inventory_id = 1, ck_quantity = Some 5, ck_location_id = 99\<rparr> gauze_db)) \<noteq> 200
   \<and> fst (barcode_checkin
        \<lparr>ck_inventory_id = 1, ck_quantity = Some 5, ck_location_id = 99\<rparr> gauze_db) = gauze_db"
proof -
  let ?dec = "\<lparr>ck_inventory_id = 1, ck_quantity = Some (- 3), ck_location_id = 1\<rparr>"
  let ?new = "\<lparr>ck_inventory_id = 1, ck_quantity = Some 0, ck_location_id = 2\<rparr>"
  let ?lost = "\<lparr>ck_inventory_id = 1, ck_quantity = Some 5, ck_location_id = 99\<rparr>"
  have rows: "location_inventory gauze_db (1, 1) = Some 10" "location_inventory gauze_db (1, 2) = None"
    "location_inventory gauze_db (1, 99) = None"
    and locs: "location_exists gauze_db 2" "\<not> location_exists gauze_db 99"
    by (simp_all add: gauze_db_def key_defs)
  have a: "status (snd (barcode_checkin ?dec gauze_db)) = 200
      \<and> location_inventory (fst (barcode_checkin ?dec gauze_db)) (1, 1) = Some 7"
    using checkin_accepts_any_integer [of ?dec "- 3" gauze_db] rows by simp
  have b: "status (snd (barcode_checkin ?new gauze_db)) = 200
      \<and> location_inventory (fst (barcode_checkin ?new gauze_db)) (1, 2) = Some 0"
    using checkin_accepts_any_integer [of ?new 0 gauze_db] rows locs by simp
  have c: "status (snd (barcode_checkin ?lost gauze_db)) \<noteq> 200
      \<and> fst (barcode_checkin ?lost gauze_db) = gauze_db"
    using checkin_accepts_any_integer [of ?lost 5 gauze_db] rows locs by simp
  from a b c show ?thesis by simp
qed

subsection \<open>Consume\<close>

lemma show_nat_digit [simp]: "n < 10 \<Longrightarrow> show_nat n = [digit n]"
  by (simp add: show_nat.simps)

text \<open>
  Claim C3 says that a consumption of more than the row holds, or at a location without a
  row, fails with an error whose payload holds the current and the requested quantity.
  The payloads of the handler name the item and the location only: eleven units asked of
  ten and twelve asked of six are answered with the same body, and a location without a
  row is answered 404 with a body of its own.
\<close>

theorem consume_payload_counterexample:
  "snd (inventory_consume 1
          \<lparr>cr_location = 1, cr_supplies = [\<lparr>ci_inventory_id = 1, ci_quantity = 11\<rparr>]\<rparr> gauze_db)
     = Response 400 (Error ''Not enough quantity of item ID 1 at location 1'')
   \<and> snd (inventory_consume 1
          \<lparr>cr_location = 1, cr_supplies = [\<lparr>ci_inventory_id = 1, ci_quantity = 12\<rparr>]\<rparr>
          (gauze_db\<lparr>location_inventory := [(1, 1) \<mapsto> 6]\<rparr>))
     = Response 400 (Error ''Not enough quantity of item ID 1 at location 1'')
   \<and> snd (inventory_consume 1
          \<lparr>cr_location = 2, cr_supplies = [\<lparr>ci_inventory_id = 1, ci_quantity = 4\<rparr>]\<rparr> gauze_db)
     = Response 404 (Error ''Item ID 1 not found at location 2'')"
  by (simp add: inventory_consume_def gauze_db_def owns_def digit_def)

text \<open>
  Claim C3, amended. A consumption of one item, with the location and the item given, a
  positive quantity and an item of the user's: where the pair has no row the call is
  answered 404 and where the row holds less than the quantity it is answered 400, each
  with a message that names the item and the location, and the store is left as it was;
  otherwise the row's quantity is lowered by the requested one and the call is
  answered 200.
\<close>

theorem consume_single:
  assumes "cr_supplies r = [item]" and "cr_location r \<noteq> 0" and "ci_inventory_id item \<noteq> 0"
    and "0 < ci_quantity item" and "owns s userId (ci_inventory_id item)"
  shows "inventory_consume userId r s =
           (case location_inventory s (ci_inventory_id item, cr_location r) of
              None \<Rightarrow>
                (s, Response 404
                      (Error (''Item ID '' @ show_nat (ci_inventory_id item)
                              @ '' not found at location '' @ show_nat (cr_location r))))
            | Some current \<Rightarrow>
                if current < ci_quantity item
                then (s, Response 400
                           (Error (''Not enough quantity of item ID '' @ show_nat (ci_inventory_id item)
                                   @ '' at location '' @ show_nat (cr_location r))))
                else (s\<lparr>location_inventory := (location_inventory s)
                          ((ci_inventory_id item, cr_location r) \<mapsto> current - ci_quantity item)\<rparr>,
                      Response 200 (Message ''Inventory consumed successfully'')))"
  using assms
  by (simp add: inventory_consume_def Let_def add_quantity_def split: option.splits)

theorem consume_single_witness:
  "inventory_consume 1
     \<lparr>cr_location = 1, cr_supplies = [\<lparr>ci_inventory_id = 1, ci_quantity = 4\<rparr>]\<rparr> gauze_db
   = (gauze_db\<lparr>location_inventory := (location_inventory gauze_db)((1, 1) \<mapsto> 6)\<rparr>,
      Response 200 (Message ''Inventory consumed successfully''))"
proof -
  let ?item = "\<lparr>ci_inventory_id = 1, ci_quantity = 4\<rparr>"
  let ?r = "\<lparr>cr_location = 1, cr_supplies = [?item]\<rparr>"
  have h: "cr_supplies ?r = [?item]" "cr_location ?r \<noteq> 0" "ci_inventory_id ?item \<noteq> 0"
    "0 < ci_quantity ?item" "owns gauze_db 1 (ci_inventory_id ?item)"
    by (simp_all add: owns_def gauze_db_def)
  have row: "location_inventory gauze_db (1, 1) = Some 10" by (simp add: gauze_db_def)
  from consume_single [OF h] show ?thesis using row by simp
qed

subsection \<open>Batches\<close>

lemmas add_defs = inventory_add_def resolve_item_def place_item_def item_label_def
  select_by_barcode_def fresh_id_def ilike_def lower_def backslash_def owns_def Let_def









lemma resolve_item_Use:
  "resolve_item userId item s = Use i s1 \<Longrightarrow>
     0 < si_quantity item \<and> location_inventory s1 = location_inventory s
     \<and> supplies s1 = supplies s \<and> op_supplies s1 = op_supplies s \<and> supply_logs s1 = supply_logs s"
  by (auto simp: resolve_item_def Let_def split: if_splits option.splits list.splits)








subsection \<open>The audit log\<close>

lemma consume_loop_logs:
  "consume_loop userId location items s = Inr s' \<Longrightarrow> supply_logs s' = supply_logs s"
  by (induction userId location items s rule: consume_loop.induct)
     (auto simp: Let_def add_quantity_def split: if_splits option.splits)

lemma place_item_logs:
  "place_item commonAreaId destination location item inventoryId s = Inr s' \<Longrightarrow>
   supply_logs s' = supply_logs s"
  by (auto simp: place_item_def Let_def stmt_defs
           split: option.splits if_splits sum.splits prod.splits)

lemma add_loop_logs:
  "add_loop userId commonAreaId destination location items s = Inr s' \<Longrightarrow>
   supply_logs s' = supply_logs s"
proof (induction userId commonAreaId destination location items s rule: add_loop.induct)
  case (1 userId commonAreaId destination location s)
  then show ?case by simp
next
  case (2 userId commonAreaId destination location item rest s)
  show ?case
  proof (cases "resolve_item userId item s")
    case Skip
    with 2 show ?thesis by simp
  next
    case (Abort resp)
    with 2 show ?thesis by simp
  next
    case (Use i s1)
    from 2(3) Use obtain s2 where
      place: "place_item commonAreaId destination location item i s1 = Inr s2"
      and rest: "add_loop userId commonAreaId destination location rest s2 = Inr s'"
      by (auto split: sum.splits)
    from 2(2) [OF Use place rest] place_item_logs [OF place] resolve_item_Use [OF Use]
    show ?thesis by simp
  qed
qed

text \<open>
  Claim C2 says that every committed receive, consume, transfer or assign appends one
  audit-log entry. The handlers of these movements do not write to the log: four units of
  Gauze are consumed and committed, and the log is as empty as before.
\<close>

theorem consume_writes_no_log_counterexample:
  "snd (inventory_consume 1
          \<lparr>cr_location = 1, cr_supplies = [\<lparr>ci_inventory_id = 1, ci_quantity = 4\<rparr>]\<rparr> gauze_db)
     = Response 200 (Message ''Inventory consumed successfully'')
   \<and> location_inventory gauze_db (1, 1) = Some 10
   \<and> location_inventory (fst (inventory_consume 1
          \<lparr>cr_location = 1, cr_supplies = [\<lparr>ci_inventory_id = 1, ci_quantity = 4\<rparr>]\<rparr> gauze_db))
        (1, 1) = Some 6
   \<and> supply_logs gauze_db = []
   \<and> supply_logs (fst (inventory_consume 1
          \<lparr>cr_location = 1, cr_supplies = [\<lparr>ci_inventory_id = 1, ci_quantity = 4\<rparr>]\<rparr> gauze_db)) = []"
  by (simp add: inventory_consume_def gauze_db_def owns_def add_quantity_def)

text \<open>
  Claim C2, amended. The audit log is written by the logging call alone. When the supply
  exists and the request's operatory is null or has a row, the call commits and appends
  exactly one entry, which carries the request's quantity and action, the unit cost and,
  as total cost, the product the handler computes from that unit cost and the quantity;
  the supply's row and the operatory's rows of the supply are moved by that quantity in
  the direction of the action. When the supply does not exist, or the operatory has no
  row, the call rolls back, appends nothing and leaves the store as it was. The handlers
  that consume, transfer, add, check in, scan-consume and assign leave the audit log as
  it was, committed or not.
\<close>

theorem audit_log_written_by_logs_post_only:
  "(case supplies s (lr_supply_id r) of
      None \<Rightarrow> logs_post js r s = (s, Response 500 (Error ''Failed to log supply usage''))
    | Some row \<Rightarrow>
        if op_reference_holds s (lr_op_id r)
        then status (snd (logs_post js r s)) = 200
          \<and> supply_logs (fst (logs_post js r s))
              = supply_logs s @ [last (supply_logs (fst (logs_post js r s)))]
          \<and> snd (logs_post js r s)
              = Response 200 (LogRow (last (supply_logs (fst (logs_post js r s)))))
          \<and> log_quantity (last (supply_logs (fst (logs_post js r s)))) = lr_quantity r
          \<and> log_action (last (supply_logs (fst (logs_post js r s)))) = lr_action r
          \<and> log_op_id (last (supply_logs (fst (logs_post js r s)))) = lr_op_id r
          \<and> log_supply_id (last (supply_logs (fst (logs_post js r s)))) = lr_supply_id r
          \<and> log_total_cost (last (supply_logs (fst (logs_post js r s))))
              = js_times js (log_unit_cost (last (supply_logs (fst (logs_post js r s)))))
                  (of_int (lr_quantity r))
          \<and> supplies (fst (logs_post js r s)) (lr_supply_id r)
              = Some (row\<lparr>sup_quantity := moved r (sup_quantity row)\<rparr>)
          \<and> op_supplies (fst (logs_post js r s))
              = map (\<lambda>x. if lr_op_id r \<noteq> None \<and> os_op_id x = lr_op_id r
                             \<and> os_supply_id x = lr_supply_id r
                          then x\<lparr>os_quantity := moved r (os_quantity x)\<rparr> else x) (op_supplies s)
        else logs_post js r s = (s, Response 500 (Error ''Failed to log supply usage'')))
   \<and> supply_logs (fst (inventory_consume userId c s)) = supply_logs s
   \<and> supply_logs (fst (inventory_transfer userId t s)) = supply_logs s
   \<and> supply_logs (fst (inventory_add userId a s)) = supply_logs s
   \<and> supply_logs (fst (barcode_checkin k s)) = supply_logs s
   \<and> supply_logs (fst (barcode_consume userId k s)) = supply_logs s
   \<and> supply_logs (fst (op_supplies_assign g s)) = supply_logs s"
proof (intro conjI)
  show "case supplies s (lr_supply_id r) of
      None \<Rightarrow> logs_post js r s = (s, Response 500 (Error ''Failed to log supply usage''))
    | Some row \<Rightarrow>
        if op_reference_holds s (lr_op_id r)
        then status (snd (logs_post js r s)) = 200
          \<and> supply_logs (fst (logs_post js r s))
              = supply_logs s @ [last (supply_logs (fst (logs_post js r s)))]
          \<and> snd (logs_post js r s)
              = Response 200 (LogRow (last (supply_logs (fst (logs_post js r s)))))
          \<and> log_quantity (last (supply_logs (fst (logs_post js r s)))) = lr_quantity r
          \<and> log_action (last (supply_logs (fst (logs_post js r s)))) = lr_action r
          \<and> log_op_id (last (supply_logs (fst (logs_post js r s)))) = lr_op_id r
          \<and> log_supply_id (last (supply_logs (fst (logs_post js r s)))) = lr_supply_id r
          \<and> log_total_cost (last (supply_logs (fst (logs_post js r s))))
              = js_times js (log_unit_cost (last (supply_logs (fst (logs_post js r s)))))
                  (of_int (lr_quantity r))
          \<and> supplies (fst (logs_post js r s)) (lr_supply_id r)
              = Some (row\<lparr>sup_quantity := moved r (sup_quantity row)\<rparr>)
          \<and> op_supplies (fst (logs_post js r s))
              = map (\<lambda>x. if lr_op_id r \<noteq> None \<and> os_op_id x = lr_op_id r
                             \<and> os_supply_id x = lr_supply_id r
                          then x\<lparr>os_quantity := moved r (os_quantity x)\<rparr> else x) (op_supplies s)
        else logs_post js r s = (s, Response 500 (Error ''Failed to log supply usage''))"
    by (simp add: logs_post_def Let_def moved_def op_reference_holds_def split: option.splits)
  show "supply_logs (fst (inventory_consume userId c s)) = supply_logs s"
    by (auto simp: inventory_consume_def split: sum.splits dest: consume_loop_logs)
  show "supply_logs (fst (inventory_transfer userId t s)) = supply_logs s"
    by (auto simp: inventory_transfer_def Let_def stmt_defs split: option.splits if_splits)
  show "supply_logs (fst (inventory_add userId a s)) = supply_logs s"
    by (auto simp: inventory_add_def split: sum.splits list.splits dest: add_loop_logs)
  show "supply_logs (fst (barcode_checkin k s)) = supply_logs s"
    by (auto simp: barcode_checkin_def Let_def insert_row_def split: option.splits if_splits)
  show "supply_logs (fst (barcode_consume userId k s)) = supply_logs s"
    by (simp add: barcode_consume_def add_quantity_def split: option.splits list.splits)
  show "supply_logs (fst (op_supplies_assign g s)) = supply_logs s"
    by (simp add: op_supplies_assign_def Let_def split: option.splits list.splits)
qed

theorem audit_log_written_by_logs_post_only_witness:
  "supply_logs (fst (logs_post exact_numbers use_three gauze_db))
     = [\<lparr>log_user_id = 1, log_op_id = Some 1, log_supply_id = 1, log_quantity = 3,
          log_action = ''use'', log_unit_cost = 5 / 2, log_total_cost = 15 / 2,
          log_procedure_id = None\<rparr>]
   \<and> supplies (fst (logs_post exact_numbers use_three gauze_db)) 1
     = Some \<lparr>sup_quantity = 2, sup_cost_per_unit = Some (5 / 2)\<rparr>
   \<and> logs_post exact_numbers (use_three\<lparr>lr_supply_id := 7\<rparr>) gauze_db
     = (gauze_db, Response 500 (Error ''Failed to log supply usage''))
   \<and> logs_post exact_numbers (use_three\<lparr>lr_op_id := Some 99\<rparr>) gauze_db
     = (gauze_db, Response 500 (Error ''Failed to log supply usage''))
   \<and> supply_logs (fst (inventory_consume 1
          \<lparr>cr_location = 1, cr_supplies = [\<lparr>ci_inventory_id = 1, ci_quantity = 4\<rparr>]\<rparr> gauze_db)) = []"
proof -
  have row: "supplies gauze_db 1 = Some \<lparr>sup_quantity = 5, sup_cost_per_unit = Some (5 / 2)\<rparr>"
    and none: "supplies gauze_db 7 = None"
    and logs: "supply_logs gauze_db = []"
    and op: "op_reference_holds gauze_db (Some 1)" "\<not> op_reference_holds gauze_db (Some 99)"
    by (simp_all add: gauze_db_def key_defs)
  have entry: "last (supply_logs (fst (logs_post exact_numbers use_three gauze_db)))
      = \<lparr>log_user_id = 1, log_op_id = Some 1, log_supply_id = 1, log_quantity = 3,
          log_action = ''use'', log_unit_cost = 5 / 2, log_total_cost = 15 / 2,
          log_procedure_id = None\<rparr>"
    by (simp add: logs_post_def gauze_db_def use_three_def exact_numbers_def key_defs Let_def)
  note a = audit_log_written_by_logs_post_only [where s = gauze_db and r = use_three
      and js = exact_numbers and userId = 1
      and c = "\<lparr>cr_location = 1, cr_supplies = [\<lparr>ci_inventory_id = 1, ci_quantity = 4\<rparr>]\<rparr>"]
  note b = audit_log_written_by_logs_post_only [where s = gauze_db and js = exact_numbers
      and r = "use_three\<lparr>lr_supply_id := 7\<rparr>"]
  note c = audit_log_written_by_logs_post_only [where s = gauze_db and js = exact_numbers
      and r = "use_three\<lparr>lr_op_id := Some 99\<rparr>"]
  from a row logs op entry have 1: "supply_logs (fst (logs_post exact_numbers use_three gauze_db))
     = [\<lparr>log_user_id = 1, log_op_id = Some 1, log_supply_id = 1, log_quantity = 3,
          log_action = ''use'', log_unit_cost = 5 / 2, log_total_cost = 15 / 2,
          log_procedure_id = None\<rparr>]
     \<and> supplies (fst (logs_post exact_numbers use_three gauze_db)) 1
       = Some \<lparr>sup_quantity = 2, sup_cost_per_unit = Some (5 / 2)\<rparr>
     \<and> supply_logs (fst (inventory_consume 1
          \<lparr>cr_location = 1, cr_supplies = [\<lparr>ci_inventory_id = 1, ci_quantity = 4\<rparr>]\<rparr> gauze_db)) = []"
    by (simp add: moved_def use_three_def)
  from b none have 2: "logs_post exact_numbers (use_three\<lparr>lr_supply_id := 7\<rparr>) gauze_db
     = (gauze_db, Response 500 (Error ''Failed to log supply usage''))"
    by (simp add: use_three_def)
  from c row op have 3: "logs_post exact_numbers (use_three\<lparr>lr_op_id := Some 99\<rparr>) gauze_db
     = (gauze_db, Response 500 (Error ''Failed to log supply usage''))"
    by (simp add: use_three_def)
  from 1 2 3 show ?thesis by simp
qed



subsection \<open>Non-negative quantities\<close>

lemma nonneg_add_quantity:
  "nonneg s \<Longrightarrow> (\<And>q. location_inventory s k = Some q \<Longrightarrow> 0 \<le> q + d) \<Longrightarrow>
   nonneg (add_quantity k d s)"
  by (auto simp: nonneg_def add_quantity_def split: option.splits if_splits)

lemma nonneg_consume_loop:
  "nonneg s \<Longrightarrow> consume_loop userId location items s = Inr s' \<Longrightarrow> nonneg s'"
proof (induction userId location items s rule: consume_loop.induct)
  case (1 userId location s)
  then show ?case by simp
next
  case (2 userId location item rest s)
  show ?case
  proof (cases "ci_inventory_id item = 0 \<or> ci_quantity item \<le> 0")
    case True
    with 2 show ?thesis by (simp add: Let_def)
  next
    case False
    with 2(4) obtain currentQty where
      row: "location_inventory s (ci_inventory_id item, location) = Some currentQty"
      and enough: "\<not> currentQty < ci_quantity item" and own: "owns s userId (ci_inventory_id item)"
      and rest: "consume_loop userId location rest
                   (add_quantity (ci_inventory_id item, location) (- ci_quantity item) s) = Inr s'"
      by (auto simp: Let_def split: if_splits option.splits)
    have "nonneg (add_quantity (ci_inventory_id item, location) (- ci_quantity item) s)"
      using 2(3) row enough by (intro nonneg_add_quantity) auto
    with 2(2) False own row enough rest show ?thesis by (simp add: Let_def)
  qed
qed

lemma nonneg_place_item:
  "nonneg s \<Longrightarrow> 0 < si_quantity item \<Longrightarrow>
   place_item commonAreaId destination location item inventoryId s = Inr s' \<Longrightarrow> nonneg s'"
  by (auto simp: place_item_def Let_def nonneg_def stmt_defs
           split: option.splits if_splits sum.splits prod.splits)

lemma nonneg_add_loop:
  "nonneg s \<Longrightarrow> add_loop userId commonAreaId destination location items s = Inr s' \<Longrightarrow> nonneg s'"
proof (induction userId commonAreaId destination location items s rule: add_loop.induct)
  case (1 userId commonAreaId destination location s)
  then show ?case by simp
next
  case (2 userId commonAreaId destination location item rest s)
  show ?case
  proof (cases "resolve_item userId item s")
    case Skip
    with 2 show ?thesis by simp
  next
    case (Abort resp)
    with 2 show ?thesis by simp
  next
    case (Use i s1)
    from 2(4) Use obtain s2 where
      place: "place_item commonAreaId destination location item i s1 = Inr s2"
      and rest: "add_loop userId commonAreaId destination location rest s2 = Inr s'"
      by (auto split: sum.splits)
    from resolve_item_Use [OF Use] 2(3) have "nonneg s1" "0 < si_quantity item"
      by (auto simp: nonneg_def)
    then have "nonneg s2" using place by (rule nonneg_place_item)
    with 2(2) Use place rest show ?thesis by simp
  qed
qed

text \<open>
  The handlers that check before they write keep every quantity non-negative: consume,
  add, scan check-in, scan consume, assign, and transfer when the requested quantity is
  positive.
\<close>

lemma nonneg_guarded_handlers:
  assumes "nonneg s"
  shows "nonneg (fst (inventory_consume userId c s))"
    and "nonneg (fst (inventory_add userId a s))"
    and "nonneg (fst (barcode_checkin k s))"
    and "nonneg (fst (barcode_consume userId k s))"
    and "nonneg (fst (op_supplies_assign g s))"
    and "0 < tr_quantity t \<Longrightarrow> nonneg (fst (inventory_transfer userId t s))"
proof -
  show "nonneg (fst (inventory_consume userId c s))"
    using assms by (auto simp: inventory_consume_def split: sum.splits dest: nonneg_consume_loop)
  show "nonneg (fst (inventory_add userId a s))"
    using assms by (auto simp: inventory_add_def split: sum.splits list.splits dest: nonneg_add_loop)
  show "nonneg (fst (barcode_checkin k s))"
    using assms
    by (auto simp: barcode_checkin_def Let_def nonneg_def insert_row_def split: option.splits if_splits)
  show "nonneg (fst (barcode_consume userId k s))"
    using assms
    by (auto simp: barcode_consume_def nonneg_def add_quantity_def
          split: option.splits if_splits list.splits)
  show "nonneg (fst (op_supplies_assign g s))"
    using assms
    by (auto simp: op_supplies_assign_def Let_def nonneg_def split: option.splits if_splits list.splits)
  show "nonneg (fst (inventory_transfer userId t s))" if "0 < tr_quantity t"
    using assms that
    by (auto simp: inventory_transfer_def Let_def nonneg_def stmt_defs split: option.splits if_splits)
qed

text \<open>So does every sequence of such movements.\<close>

lemma nonneg_perform: "nonneg s \<Longrightarrow> guarded x \<Longrightarrow> nonneg (perform js x s)"
  by (cases x) (simp_all add: nonneg_guarded_handlers)

lemma nonneg_sequence:
  "nonneg s \<Longrightarrow> list_all guarded xs \<Longrightarrow> nonneg (fold (perform js) xs s)"
  by (induction xs arbitrary: s) (simp_all add: nonneg_perform)

text \<open>A transfer of a negative quantity passes the check of the source (any quantity is
  at least a negative one) and inserts the negative quantity at the destination.\<close>

lemma transfer_negative_quantity:
  "snd (inventory_transfer 1 \<lparr>tr_inventory_id = 1, tr_source_location_id = 1,
       tr_destination_location_id = 2, tr_quantity = - 5\<rparr> gauze_db) = Response 200 Success
   \<and> location_inventory (fst (inventory_transfer 1 \<lparr>tr_inventory_id = 1, tr_source_location_id = 1,
       tr_destination_location_id = 2, tr_quantity = - 5\<rparr> gauze_db)) (1, 2) = Some (- 5)"
  by (simp add: inventory_transfer_def gauze_db_def owns_def stmt_defs key_defs)

text \<open>The logging call is not among them: it takes a store that satisfies the invariant
  to one that does not.\<close>

lemma logs_post_breaks_nonneg:
  "nonneg gauze_db \<and> \<not> nonneg (fst (logs_post js use_three gauze_db))"
proof
  show "nonneg gauze_db"
    by (auto simp: nonneg_def gauze_db_def split: if_splits)
  have "op_supplies (fst (logs_post js use_three gauze_db))
     = [\<lparr>os_op_id = Some 1, os_supply_id = 1, os_quantity = - 1\<rparr>]"
    by (simp add: logs_post_def use_three_def gauze_db_def key_defs Let_def)
  then show "\<not> nonneg (fst (logs_post js use_three gauze_db))"
    by (simp add: nonneg_def)
qed

text \<open>
  Claim C1 says that no committed operation leaves a negative quantity. The logging call
  subtracts without a check: with two units of the supply in operatory 1, which has a
  row, a use of three is answered 200 and commits the operatory's row of the supply at
  minus one, whatever the operations on numbers are; with 2.5 read and multiplied by 3
  without rounding, as doubles are, the answer is the entry below.
\<close>

theorem logs_post_commits_negative_quantity:
  "snd (logs_post exact_numbers use_three gauze_db)
     = Response 200 (LogRow \<lparr>log_user_id = 1, log_op_id = Some 1, log_supply_id = 1,
          log_quantity = 3, log_action = ''use'', log_unit_cost = 5 / 2, log_total_cost = 15 / 2,
          log_procedure_id = None\<rparr>)
   \<and> op_supplies gauze_db = [\<lparr>os_op_id = Some 1, os_supply_id = 1, os_quantity = 2\<rparr>]
   \<and> op_supplies (fst (logs_post exact_numbers use_three gauze_db))
     = [\<lparr>os_op_id = Some 1, os_supply_id = 1, os_quantity = - 1\<rparr>]
   \<and> status (snd (logs_post js use_three gauze_db)) = 200
   \<and> op_supplies (fst (logs_post js use_three gauze_db))
     = [\<lparr>os_op_id = Some 1, os_supply_id = 1, os_quantity = - 1\<rparr>]"
  by (simp add: logs_post_def use_three_def gauze_db_def exact_numbers_def key_defs Let_def)

subsection \<open>New items by name\<close>

text \<open>A pattern without a backslash never raises, and a name without one matches itself
  and every spelling of itself in another case.\<close>

lemma like_match_total:
  "backslash \<notin> set p \<Longrightarrow> like_match p t \<noteq> None"
proof (induction p arbitrary: t)
  case Nil
  then show ?case by simp
next
  case (Cons c cs)
  then have ih: "\<And>u. like_match cs u \<noteq> None" and nb: "c \<noteq> backslash" by auto
  show ?case
  proof (cases "c = CHR ''%''")
    case True
    show ?thesis
    proof (induction t)
      case Nil
      from ih [of "[]"] obtain b where "like_match cs [] = Some b" by auto
      then show ?case using True
        by (subst like_match.simps(2)) (cases b; simp del: like_match.simps)
    next
      case (Cons x xs)
      from ih [of "x # xs"] obtain b where "like_match cs (x # xs) = Some b" by auto
      then show ?case using True Cons
        by (subst like_match.simps(2)) (cases b; simp del: like_match.simps)
    qed
  next
    case False
    then show ?thesis using nb ih
      by (subst like_match.simps(2)) (cases t; auto simp del: like_match.simps)
  qed
qed

lemma like_match_refl: "backslash \<notin> set p \<Longrightarrow> like_match p p = Some True"
proof (induction p)
  case Nil
  then show ?case by simp
next
  case (Cons c cs)
  then have ih: "like_match cs cs = Some True" and nb: "c \<noteq> backslash" by auto
  show ?case
  proof (cases "c = CHR ''%''")
    case True
    from Cons(2) have "like_match cs (c # cs) \<noteq> None" by (intro like_match_total) simp
    then obtain b where b: "like_match cs (c # cs) = Some b" by auto
    have step: "like_match (c # cs) cs = Some True"
      using ih True by (subst like_match.simps(2)) (simp del: like_match.simps)
    show ?thesis using True b step
      by (subst like_match.simps(2)) (cases b; simp del: like_match.simps)
  next
    case False
    then show ?thesis using nb ih
      by (subst like_match.simps(2)) (simp del: like_match.simps)
  qed
qed

lemma lower_backslash: "lower c = backslash \<longleftrightarrow> c = backslash"
proof -
  have "c \<in> set ''ABCDEFGHIJKLMNOPQRSTUVWXYZ'' \<or> lower c = c"
    by (auto simp: lower_def split: option.splits dest!: map_of_SomeD)
  moreover have "\<forall>x \<in> set ''ABCDEFGHIJKLMNOPQRSTUVWXYZ''. lower x \<noteq> backslash \<and> x \<noteq> backslash"
    by (simp add: lower_def backslash_def)
  ultimately show ?thesis by auto
qed

lemma ilike_same_name:
  assumes "backslash \<notin> set name" and "map lower t = map lower name"
  shows "ilike t name = Some True"
proof -
  have "backslash \<notin> set (map lower name)" using assms(1) by (auto dest: sym simp: lower_backslash)
  then show ?thesis unfolding ilike_def assms(2) by (rule like_match_refl)
qed

lemma ilike_total: "backslash \<notin> set name \<Longrightarrow> ilike t name \<noteq> None"
  unfolding ilike_def by (rule like_match_total) (auto dest: sym simp: lower_backslash)

lemma select_by_name_finds:
  assumes "backslash \<notin> set name" and "row \<in> set rows" and "inv_user_id row = userId"
    and "map lower (inv_name row) = map lower name"
  shows "\<exists>ids. select_by_name rows name userId = Some ids \<and> inv_id row \<in> set ids"
  using assms(2)
proof (induction rows)
  case Nil
  then show ?case by simp
next
  case (Cons r rs)
  from ilike_total [OF assms(1)] obtain b where b: "ilike (inv_name r) name = Some b" by blast
  have total: "\<exists>ids. select_by_name rs name userId = Some ids"
  proof (induction rs)
    case Nil
    then show ?case by simp
  next
    case (Cons x xs)
    from ilike_total [OF assms(1)] obtain b' where "ilike (inv_name x) name = Some b'" by blast
    with Cons show ?case by auto
  qed
  show ?case
  proof (cases "row = r")
    case True
    with total assms(3) ilike_same_name [OF assms(1,4)] show ?thesis by auto
  next
    case False
    with Cons have "\<exists>ids. select_by_name rs name userId = Some ids \<and> inv_id row \<in> set ids" by simp
    with b show ?thesis by auto
  qed
qed

lemma select_by_name_subset:
  "select_by_name rows name userId = Some ids \<Longrightarrow>
   \<forall>i \<in> set ids. \<exists>row \<in> set rows. inv_id row = i \<and> inv_user_id row = userId"
  by (induction rows arbitrary: ids) (auto split: if_splits option.splits)

text \<open>A new item whose name holds no backslash and equals, case aside, the name of a
  row of the user reuses a row of the user's catalog: nothing is inserted.\<close>

lemma resolve_item_reuses:
  assumes "si_isNew item" and "si_name item \<noteq> []" and "0 < si_quantity item"
    and "backslash \<notin> set (si_name item)"
    and "row \<in> set (inventory s)" and "inv_user_id row = userId"
    and "map lower (inv_name row) = map lower (si_name item)"
  shows "\<exists>existing \<in> set (inventory s).
           inv_user_id existing = userId \<and> resolve_item userId item s = Use (inv_id existing) s"
proof -
  from select_by_name_finds [OF assms(4,5,6,7)] obtain ids where
    ids: "select_by_name (inventory s) (si_name item) userId = Some ids" "inv_id row \<in> set ids"
    by blast
  then obtain i rest where cons: "ids = i # rest" by (cases ids) auto
  with select_by_name_subset [OF ids(1)] obtain existing where
    "existing \<in> set (inventory s)" "inv_id existing = i" "inv_user_id existing = userId"
    by auto
  moreover have "resolve_item userId item s = Use i s"
    using ids(1) cons assms(1,2,3) by (simp add: resolve_item_def Let_def)
  ultimately show ?thesis by auto
qed

text \<open>
  Claim C9 says that a new item whose name equals, case aside, the name of an item of the
  account reuses that item. The name is matched as a pattern: a name with a backslash
  does not match itself, so adding it twice creates two catalog rows of that name.
\<close>

theorem backslash_name_is_created_twice:
  "map inv_name (inventory (fst (inventory_add 1 slash_add gauze_db)))
     = [''Gauze'', ''Gloves'', [CHR ''A'', backslash, CHR ''B'']]
   \<and> snd (inventory_add 1 slash_add (fst (inventory_add 1 slash_add gauze_db)))
     = Response 200 (Message ''Inventory added successfully!'')
   \<and> map inv_name (inventory (fst (inventory_add 1 slash_add (fst (inventory_add 1 slash_add gauze_db)))))
     = [''Gauze'', ''Gloves'', [CHR ''A'', backslash, CHR ''B''], [CHR ''A'', backslash, CHR ''B'']]"
  by (simp add: slash_add_def slash_item_def gauze_db_def add_defs stmt_defs key_defs)

subsection \<open>The retry helpers\<close>

lemma backoff_shape:
  "backoff 1 = 1000" "1 \<le> k \<Longrightarrow> backoff (Suc k) = min (2 * backoff k) 5000"
  by (auto simp: backoff_def min_def power_eq_if)

lemma query_from_calls:
  "attempt \<le> Suc retries \<Longrightarrow> calls (query_from poolQuery retries attempt lastError slept) \<le> retries"
proof (induction poolQuery retries attempt lastError slept rule: query_from.induct)
  case (1 poolQuery retries attempt lastError slept)
  show ?case
  proof (cases "attempt \<le> retries")
    case True
    then show ?thesis using 1
      by (subst query_from.simps) (auto split: outcome.splits)
  next
    case False
    then show ?thesis using 1 by (subst query_from.simps) auto
  qed
qed

lemma upt_min_Suc:
  "1 \<le> attempt \<Longrightarrow> attempt \<le> retries \<Longrightarrow>
   (if attempt < retries then map backoff [1..<attempt] @ [backoff attempt] else map backoff [1..<attempt])
     = map backoff [1..<min (Suc attempt) retries]"
  by (auto simp: min_def)

lemma query_from_waits:
  "1 \<le> attempt \<Longrightarrow> attempt \<le> Suc retries \<Longrightarrow> slept = map backoff [1..<min attempt retries] \<Longrightarrow>
   waits (query_from poolQuery retries attempt lastError slept)
     = map backoff [1..<calls (query_from poolQuery retries attempt lastError slept)]"
proof (induction poolQuery retries attempt lastError slept rule: query_from.induct)
  case (1 poolQuery retries attempt lastError slept)
  show ?case
  proof (cases "attempt \<le> retries")
    case False
    with 1(2-) have "attempt = Suc retries" by simp
    then show ?thesis using 1(4) by (subst (1 2) query_from.simps) (simp add: min_def)
  next
    case le: True
    then have slept: "slept = map backoff [1..<attempt]" using 1(4) by (simp add: min_def)
    show ?thesis
    proof (cases "poolQuery attempt")
      case (Resolved v)
      then show ?thesis using le slept by (subst (1 2) query_from.simps) simp
    next
      case (Rejected error)
      show ?thesis
      proof (cases "no_retry error")
        case True
        then show ?thesis using le slept Rejected by (subst (1 2) query_from.simps) simp
      next
        case False
        have "waits (query_from poolQuery retries (attempt + 1) (Some error)
                 (if attempt < retries then slept @ [backoff attempt] else slept))
            = map backoff [1..<calls (query_from poolQuery retries (attempt + 1) (Some error)
                 (if attempt < retries then slept @ [backoff attempt] else slept))]"
          using le Rejected False 1(2) upt_min_Suc [of attempt retries] slept
          by (intro 1(1)) auto
        then show ?thesis using le Rejected False by (subst (1 2) query_from.simps) simp
      qed
    qed
  qed
qed

lemma query_from_reaches:
  "attempt \<le> k \<Longrightarrow> k \<le> retries \<Longrightarrow>
   (\<forall>j. attempt \<le> j \<and> j < k \<longrightarrow> (\<exists>e. poolQuery j = Rejected e \<and> \<not> no_retry e)) \<Longrightarrow>
   \<exists>lastError' slept'. query_from poolQuery retries attempt lastError slept
      = query_from poolQuery retries k lastError' slept'"
proof (induction "k - attempt" arbitrary: attempt lastError slept)
  case 0
  then have "attempt = k" by simp
  then show ?case by blast
next
  case (Suc n)
  then have lt: "attempt < k" by simp
  with Suc(5) obtain e where e: "poolQuery attempt = Rejected e" "\<not> no_retry e" by blast
  have step: "query_from poolQuery retries attempt lastError slept
      = query_from poolQuery retries (attempt + 1) (Some e)
          (if attempt < retries then slept @ [backoff attempt] else slept)"
    using e lt Suc(4) by (subst query_from.simps) simp
  have "\<exists>lastError' slept'. query_from poolQuery retries (attempt + 1) (Some e)
          (if attempt < retries then slept @ [backoff attempt] else slept)
      = query_from poolQuery retries k lastError' slept'"
    using Suc(2-) lt by (intro Suc(1)) auto
  with step show ?case by simp
qed

lemma query_calls_Returned:
  assumes "1 \<le> k" "k \<le> retries"
    and "\<forall>j. 1 \<le> j \<and> j < k \<longrightarrow> (\<exists>e. poolQuery j = Rejected e \<and> \<not> no_retry e)"
    and "poolQuery k = Resolved v"
  shows "result (query poolQuery retries) = Returned v \<and> calls (query poolQuery retries) = k"
proof -
  from query_from_reaches [OF assms(1,2,3), of None "[]"] obtain lastError' slept'
    where "query poolQuery retries = query_from poolQuery retries k lastError' slept'"
    by (auto simp: query_def)
  then show ?thesis using assms(2,4) by (simp add: query_from.simps)
qed

lemma query_calls_Thrown:
  assumes "1 \<le> k" "k \<le> retries"
    and "\<forall>j. 1 \<le> j \<and> j < k \<longrightarrow> (\<exists>e. poolQuery j = Rejected e \<and> \<not> no_retry e)"
    and "poolQuery k = Rejected e" "no_retry e"
  shows "result (query poolQuery retries) = Thrown (Some e) \<and> calls (query poolQuery retries) = k"
proof -
  from query_from_reaches [OF assms(1,2,3), of None "[]"] obtain lastError' slept'
    where "query poolQuery retries = query_from poolQuery retries k lastError' slept'"
    by (auto simp: query_def)
  then show ?thesis using assms(2,4,5) by (simp add: query_from.simps)
qed

lemma query_exhausted:
  assumes "1 \<le> retries"
    and "\<forall>j. 1 \<le> j \<and> j \<le> retries \<longrightarrow> (\<exists>e. poolQuery j = Rejected e \<and> \<not> no_retry e)"
  shows "calls (query poolQuery retries) = retries
       \<and> (\<exists>e. result (query poolQuery retries) = Thrown (Some e) \<and> poolQuery retries = Rejected e)"
proof -
  from assms(2) have "\<forall>j. 1 \<le> j \<and> j < retries \<longrightarrow> (\<exists>e. poolQuery j = Rejected e \<and> \<not> no_retry e)"
    by auto
  from query_from_reaches [OF assms(1) le_refl this, of None "[]"] obtain lastError' slept'
    where q: "query poolQuery retries = query_from poolQuery retries retries lastError' slept'"
    by (auto simp: query_def)
  from assms obtain e where e: "poolQuery retries = Rejected e" "\<not> no_retry e" by blast
  show ?thesis using q e by (simp add: query_from.simps [of _ retries retries] query_from.simps [of _ retries "Suc retries"])
qed

lemma transaction_from_calls:
  "attempt \<le> Suc retries \<Longrightarrow> calls (transaction_from callback retries attempt lastError slept) \<le> retries"
proof (induction callback retries attempt lastError slept rule: transaction_from.induct)
  case (1 callback retries attempt lastError slept)
  show ?case
  proof (cases "attempt \<le> retries")
    case True
    then show ?thesis using 1
      by (subst transaction_from.simps) (auto split: attempt.splits)
  next
    case False
    then show ?thesis using 1 by (subst transaction_from.simps) auto
  qed
qed

lemma transaction_from_waits:
  "1 \<le> attempt \<Longrightarrow> attempt \<le> Suc retries \<Longrightarrow> slept = map backoff [1..<min attempt retries] \<Longrightarrow>
   waits (transaction_from callback retries attempt lastError slept)
     = map backoff [1..<calls (transaction_from callback retries attempt lastError slept)]"
proof (induction callback retries attempt lastError slept rule: transaction_from.induct)
  case (1 callback retries attempt lastError slept)
  show ?case
  proof (cases "attempt \<le> retries")
    case False
    with 1(2-) have "attempt = Suc retries" by simp
    then show ?thesis using 1(4) by (subst (1 2) transaction_from.simps) (simp add: min_def)
  next
    case le: True
    then have slept: "slept = map backoff [1..<attempt]" using 1(4) by (simp add: min_def)
    show ?thesis
    proof (cases "callback attempt")
      case (Committed v)
      then show ?thesis using le slept by (subst (1 2) transaction_from.simps) simp
    next
      case (ConnectRejected error)
      then show ?thesis using le slept by (subst (1 2) transaction_from.simps) simp
    next
      case (BodyRejected error)
      show ?thesis
      proof (cases "no_retry error")
        case True
        then show ?thesis using le slept BodyRejected by (subst (1 2) transaction_from.simps) simp
      next
        case False
        have "waits (transaction_from callback retries (attempt + 1) (Some error)
                 (if attempt < retries then slept @ [backoff attempt] else slept))
            = map backoff [1..<calls (transaction_from callback retries (attempt + 1) (Some error)
                 (if attempt < retries then slept @ [backoff attempt] else slept))]"
          using le BodyRejected False 1(2) upt_min_Suc [of attempt retries] slept
          by (intro 1(1)) auto
        then show ?thesis using le BodyRejected False by (subst (1 2) transaction_from.simps) simp
      qed
    qed
  qed
qed

lemma transaction_from_reaches:
  "attempt \<le> k \<Longrightarrow> k \<le> retries \<Longrightarrow>
   (\<forall>j. attempt \<le> j \<and> j < k \<longrightarrow> (\<exists>e. callback j = BodyRejected e \<and> \<not> no_retry e)) \<Longrightarrow>
   \<exists>lastError' slept'. transaction_from callback retries attempt lastError slept
      = transaction_from callback retries k lastError' slept'"
proof (induction "k - attempt" arbitrary: attempt lastError slept)
  case 0
  then have "attempt = k" by simp
  then show ?case by blast
next
  case (Suc n)
  then have lt: "attempt < k" by simp
  with Suc(5) obtain e where e: "callback attempt = BodyRejected e" "\<not> no_retry e" by blast
  have step: "transaction_from callback retries attempt lastError slept
      = transaction_from callback retries (attempt + 1) (Some e)
          (if attempt < retries then slept @ [backoff attempt] else slept)"
    using e lt Suc(4) by (subst transaction_from.simps) simp
  have "\<exists>lastError' slept'. transaction_from callback retries (attempt + 1) (Some e)
          (if attempt < retries then slept @ [backoff attempt] else slept)
      = transaction_from callback retries k lastError' slept'"
    using Suc(2-) lt by (intro Suc(1)) auto
  with step show ?case by simp
qed

lemma transaction_calls_Returned:
  assumes "1 \<le> k" "k \<le> retries"
    and "\<forall>j. 1 \<le> j \<and> j < k \<longrightarrow> (\<exists>e. callback j = BodyRejected e \<and> \<not> no_retry e)"
    and "callback k = Committed v"
  shows "result (transaction callback retries) = Returned v \<and> calls (transaction callback retries) = k"
proof -
  from transaction_from_reaches [OF assms(1,2,3), of None "[]"] obtain lastError' slept'
    where "transaction callback retries = transaction_from callback retries k lastError' slept'"
    by (auto simp: transaction_def)
  then show ?thesis using assms(2,4) by (simp add: transaction_from.simps)
qed

lemma transaction_calls_Thrown:
  assumes "1 \<le> k" "k \<le> retries"
    and "\<forall>j. 1 \<le> j \<and> j < k \<longrightarrow> (\<exists>e. callback j = BodyRejected e \<and> \<not> no_retry e)"
    and "callback k = BodyRejected e" "no_retry e"
  shows "result (transaction callback retries) = Thrown (Some e) \<and> calls (transaction callback retries) = k"
proof -
  from transaction_from_reaches [OF assms(1,2,3), of None "[]"] obtain lastError' slept'
    where "transaction callback retries = transaction_from callback retries k lastError' slept'"
    by (auto simp: transaction_def)
  then show ?thesis using assms(2,4,5) by (simp add: transaction_from.simps)
qed

lemma transaction_exhausted:
  assumes "1 \<le> retries"
    and "\<forall>j. 1 \<le> j \<and> j \<le> retries \<longrightarrow> (\<exists>e. callback j = BodyRejected e \<and> \<not> no_retry e)"
  shows "calls (transaction callback retries) = retries
       \<and> (\<exists>e. result (transaction callback retries) = Thrown (Some e) \<and> callback retries = BodyRejected e)"
proof -
  from assms(2) have "\<forall>j. 1 \<le> j \<and> j < retries \<longrightarrow> (\<exists>e. callback j = BodyRejected e \<and> \<not> no_retry e)"
    by auto
  from transaction_from_reaches [OF assms(1) le_refl this, of None "[]"] obtain lastError' slept'
    where q: "transaction callback retries = transaction_from callback retries retries lastError' slept'"
    by (auto simp: transaction_def)
  from assms obtain e where e: "callback retries = BodyRejected e" "\<not> no_retry e" by blast
  show ?thesis using q e by (simp add: transaction_from.simps [of _ retries retries] transaction_from.simps [of _ retries "Suc retries"])
qed

text \<open>
  Claim C6 says that an error of the not-null class is never retried. The helpers stop
  early on the codes 23505, 23503, 42P01 and 42703 only; a not-null violation has the
  code 23502, and both helpers make all three attempts of the default, sleeping one and
  two seconds in between.
\<close>

theorem not_null_is_retried_counterexample:
  "query (failing_query not_null_violation) 3
     = \<lparr>result = Thrown (Some not_null_violation), calls = 3, waits = [1000, 2000]\<rparr>
   \<and> transaction (failing_body not_null_violation) 3
     = \<lparr>result = Thrown (Some not_null_violation), calls = 3, waits = [1000, 2000]\<rparr>"
  by (simp add: query_def query_from.simps transaction_def transaction_from.simps
        no_retry_def backoff_def not_null_violation_def failing_query_def failing_body_def)

text \<open>
  Claim C6, amended. Both helpers make at most \<open>retries\<close> attempts and sleep, after
  the \<open>k\<close>-th failed attempt that is not the last, \<open>backoff k\<close> milliseconds: 1000 at
  first, doubled each time and capped at 5000. An error whose code is 23505, 23503, 42P01
  or 42703 (unique and foreign-key violations, missing table, missing column) is thrown
  by the attempt that meets it, with no further attempt; any other error of the query,
  or of the transaction's body, is followed by another attempt until one succeeds or the
  attempts are used up, and then the last error is thrown.
\<close>

theorem retry_policy:
  "calls (query poolQuery retries) \<le> retries
   \<and> waits (query poolQuery retries) = map backoff [1..<calls (query poolQuery retries)]
   \<and> calls (transaction callback retries) \<le> retries
   \<and> waits (transaction callback retries) = map backoff [1..<calls (transaction callback retries)]
   \<and> backoff 1 = 1000
   \<and> (1 \<le> n \<longrightarrow> backoff (Suc n) = min (2 * backoff n) 5000)
   \<and> (no_retry e \<longleftrightarrow> err_code e \<in> {''23505'', ''23503'', ''42P01'', ''42703''})
   \<and> (1 \<le> k \<and> k \<le> retries
        \<and> (\<forall>j. 1 \<le> j \<and> j < k \<longrightarrow> (\<exists>x. poolQuery j = Rejected x \<and> \<not> no_retry x))
        \<and> poolQuery k = Rejected e \<and> no_retry e \<longrightarrow>
        result (query poolQuery retries) = Thrown (Some e) \<and> calls (query poolQuery retries) = k)
   \<and> (1 \<le> k \<and> k \<le> retries
        \<and> (\<forall>j. 1 \<le> j \<and> j < k \<longrightarrow> (\<exists>x. callback j = BodyRejected x \<and> \<not> no_retry x))
        \<and> callback k = BodyRejected e \<and> no_retry e \<longrightarrow>
        result (transaction callback retries) = Thrown (Some e)
        \<and> calls (transaction callback retries) = k)
   \<and> (1 \<le> k \<and> k \<le> retries
        \<and> (\<forall>j. 1 \<le> j \<and> j < k \<longrightarrow> (\<exists>x. poolQuery j = Rejected x \<and> \<not> no_retry x))
        \<and> poolQuery k = Resolved v \<longrightarrow>
        result (query poolQuery retries) = Returned v \<and> calls (query poolQuery retries) = k)
   \<and> (1 \<le> k \<and> k \<le> retries
        \<and> (\<forall>j. 1 \<le> j \<and> j < k \<longrightarrow> (\<exists>x. callback j = BodyRejected x \<and> \<not> no_retry x))
        \<and> callback k = Committed w \<longrightarrow>
        result (transaction callback retries) = Returned w
        \<and> calls (transaction callback retries) = k)
   \<and> (1 \<le> retries
        \<and> (\<forall>j. 1 \<le> j \<and> j \<le> retries \<longrightarrow> (\<exists>x. poolQuery j = Rejected x \<and> \<not> no_retry x)) \<longrightarrow>
        calls (query poolQuery retries) = retries
        \<and> (\<exists>x. result (query poolQuery retries) = Thrown (Some x) \<and> poolQuery retries = Rejected x))
   \<and> (1 \<le> retries
        \<and> (\<forall>j. 1 \<le> j \<and> j \<le> retries \<longrightarrow> (\<exists>x. callback j = BodyRejected x \<and> \<not> no_retry x)) \<longrightarrow>
        calls (transaction callback retries) = retries
        \<and> (\<exists>x. result (transaction callback retries) = Thrown (Some x)
                \<and> callback retries = BodyRejected x))"
proof (intro conjI impI)
  show "calls (query poolQuery retries) \<le> retries"
    unfolding query_def by (rule query_from_calls) simp
  show "waits (query poolQuery retries) = map backoff [1..<calls (query poolQuery retries)]"
    unfolding query_def by (rule query_from_waits) simp_all
  show "calls (transaction callback retries) \<le> retries"
    unfolding transaction_def by (rule transaction_from_calls) simp
  show "waits (transaction callback retries) = map backoff [1..<calls (transaction callback retries)]"
    unfolding transaction_def by (rule transaction_from_waits) simp_all
  show "backoff 1 = 1000" by (rule backoff_shape)
  show "backoff (Suc n) = min (2 * backoff n) 5000" if "1 \<le> n"
    using that by (rule backoff_shape)
  show "no_retry e \<longleftrightarrow> err_code e \<in> {''23505'', ''23503'', ''42P01'', ''42703''}"
    by (auto simp: no_retry_def)
next
  assume h: "1 \<le> k \<and> k \<le> retries
        \<and> (\<forall>j. 1 \<le> j \<and> j < k \<longrightarrow> (\<exists>x. poolQuery j = Rejected x \<and> \<not> no_retry x))
        \<and> poolQuery k = Rejected e \<and> no_retry e"
  then have "result (query poolQuery retries) = Thrown (Some e) \<and> calls (query poolQuery retries) = k"
    by (intro query_calls_Thrown) auto
  then show "result (query poolQuery retries) = Thrown (Some e)"
    and "calls (query poolQuery retries) = k" by auto
next
  assume h: "1 \<le> k \<and> k \<le> retries
        \<and> (\<forall>j. 1 \<le> j \<and> j < k \<longrightarrow> (\<exists>x. callback j = BodyRejected x \<and> \<not> no_retry x))
        \<and> callback k = BodyRejected e \<and> no_retry e"
  then have "result (transaction callback retries) = Thrown (Some e)
        \<and> calls (transaction callback retries) = k"
    by (intro transaction_calls_Thrown) auto
  then show "result (transaction callback retries) = Thrown (Some e)"
    and "calls (transaction callback retries) = k" by auto
next
  assume h: "1 \<le> k \<and> k \<le> retries
        \<and> (\<forall>j. 1 \<le> j \<and> j < k \<longrightarrow> (\<exists>x. poolQuery j = Rejected x \<and> \<not> no_retry x))
        \<and> poolQuery k = Resolved v"
  then have "result (query poolQuery retries) = Returned v \<and> calls (query poolQuery retries) = k"
    by (intro query_calls_Returned) auto
  then show "result (query poolQuery retries) = Returned v"
    and "calls (query poolQuery retries) = k" by auto
next
  assume h: "1 \<le> k \<and> k \<le> retries
        \<and> (\<forall>j. 1 \<le> j \<and> j < k \<longrightarrow> (\<exists>x. callback j = BodyRejected x \<and> \<not> no_retry x))
        \<and> callback k = Committed w"
  then have "result (transaction callback retries) = Returned w
        \<and> calls (transaction callback retries) = k"
    by (intro transaction_calls_Returned) auto
  then show "result (transaction callback retries) = Returned w"
    and "calls (transaction callback retries) = k" by auto
next
  assume h: "1 \<le> retries
        \<and> (\<forall>j. 1 \<le> j \<and> j \<le> retries \<longrightarrow> (\<exists>x. poolQuery j = Rejected x \<and> \<not> no_retry x))"
  then have "calls (query poolQuery retries) = retries
        \<and> (\<exists>x. result (query poolQuery retries) = Thrown (Some x) \<and> poolQuery retries = Rejected x)"
    by (intro query_exhausted) auto
  then show "calls (query poolQuery retries) = retries"
    and "\<exists>x. result (query poolQuery retries) = Thrown (Some x) \<and> poolQuery retries = Rejected x"
    by auto
next
  assume h: "1 \<le> retries
        \<and> (\<forall>j. 1 \<le> j \<and> j \<le> retries \<longrightarrow> (\<exists>x. callback j = BodyRejected x \<and> \<not> no_retry x))"
  then have "calls (transaction callback retries) = retries
        \<and> (\<exists>x. result (transaction callback retries) = Thrown (Some x)
                \<and> callback retries = BodyRejected x)"
    by (intro transaction_exhausted) auto
  then show "calls (transaction callback retries) = retries"
    and "\<exists>x. result (transaction callback retries) = Thrown (Some x)
                \<and> callback retries = BodyRejected x"
    by auto
qed


theorem retry_policy_witness:
  "result (query flaky_query 3) = Returned 3 \<and> calls (query flaky_query 3) = 3
   \<and> waits (query flaky_query 3) = [1000, 2000]
   \<and> result (transaction flaky_body 3) = Returned 3 \<and> calls (transaction flaky_body 3) = 3
   \<and> waits (transaction flaky_body 3) = [1000, 2000]
   \<and> result (query (failing_query unique_violation) 3) = Thrown (Some unique_violation)
   \<and> calls (query (failing_query unique_violation) 3) = 1
   \<and> waits (query (failing_query unique_violation) 3) = []
   \<and> result (transaction (failing_body unique_violation) 3) = Thrown (Some unique_violation)
   \<and> calls (transaction (failing_body unique_violation) 3) = 1
   \<and> waits (transaction (failing_body unique_violation) 3) = []
   \<and> calls (query (failing_query econnreset) 5) = 5
   \<and> waits (query (failing_query econnreset) 5) = [1000, 2000, 4000, 5000]
   \<and> calls (transaction (failing_body econnreset) 5) = 5
   \<and> waits (transaction (failing_body econnreset) 5) = [1000, 2000, 4000, 5000]
   \<and> backoff 2 = 2000"
proof -
  have transient: "\<not> no_retry econnreset" and final: "no_retry unique_violation"
    by (simp_all add: no_retry_def econnreset_def unique_violation_def)
  have flaky:
    "\<forall>j. 1 \<le> j \<and> j < 3 \<longrightarrow> (\<exists>x. flaky_query j = Rejected x \<and> \<not> no_retry x)"
    "\<forall>j. 1 \<le> j \<and> j < 3 \<longrightarrow> (\<exists>x. flaky_body j = BodyRejected x \<and> \<not> no_retry x)"
    "flaky_query 3 = Resolved 3" "flaky_body 3 = Committed 3"
    using transient by (simp_all add: flaky_query_def flaky_body_def)
  have down:
    "\<forall>j. 1 \<le> j \<and> j \<le> 5 \<longrightarrow> (\<exists>x. failing_query econnreset j = Rejected x \<and> \<not> no_retry x)"
    "\<forall>j. 1 \<le> j \<and> j \<le> 5 \<longrightarrow> (\<exists>x. failing_body econnreset j = BodyRejected x \<and> \<not> no_retry x)"
    using transient by (simp_all add: failing_query_def failing_body_def)
  have first:
    "\<forall>j. 1 \<le> j \<and> j < (1::nat) \<longrightarrow> (\<exists>x. failing_query unique_violation j = Rejected x \<and> \<not> no_retry x)"
    "\<forall>j. 1 \<le> j \<and> j < (1::nat) \<longrightarrow> (\<exists>x. failing_body unique_violation j = BodyRejected x \<and> \<not> no_retry x)"
    "failing_query unique_violation 1 = Rejected unique_violation"
    "failing_body unique_violation 1 = BodyRejected unique_violation"
    by (simp_all add: failing_query_def failing_body_def)
  have upt: "[Suc 0..<3] = [1, 2]" "[Suc 0..<5] = [1, 2, 3, 4]"
    by (simp_all add: upt_rec)
  have delays: "backoff (Suc 0) = 1000" "backoff 2 = 2000" "backoff 3 = 4000" "backoff 4 = 5000"
    by (simp_all add: backoff_def)
  note a = retry_policy [where poolQuery = flaky_query and callback = flaky_body and retries = 3
      and k = 3 and v = 3 and w = 3 and n = 1]
  note b = retry_policy [where poolQuery = "failing_query unique_violation"
      and callback = "failing_body unique_violation" and retries = 3 and k = 1
      and e = unique_violation]
  note c = retry_policy [where poolQuery = "failing_query econnreset"
      and callback = "failing_body econnreset" and retries = 5]
  from a flaky have 1: "result (query flaky_query 3) = Returned 3 \<and> calls (query flaky_query 3) = 3
      \<and> result (transaction flaky_body 3) = Returned 3 \<and> calls (transaction flaky_body 3) = 3
      \<and> backoff (Suc 1) = min (2 * backoff 1) 5000"
    by simp
  from a 1 have 2: "waits (query flaky_query 3) = [1000, 2000]
      \<and> waits (transaction flaky_body 3) = [1000, 2000]"
    by (simp add: upt delays)
  from b first final have 3:
    "result (query (failing_query unique_violation) 3) = Thrown (Some unique_violation)
     \<and> calls (query (failing_query unique_violation) 3) = 1
     \<and> result (transaction (failing_body unique_violation) 3) = Thrown (Some unique_violation)
     \<and> calls (transaction (failing_body unique_violation) 3) = 1"
    by simp
  from b 3 have 4: "waits (query (failing_query unique_violation) 3) = []
     \<and> waits (transaction (failing_body unique_violation) 3) = []"
    by (simp add: upt)
  from c down have 5: "calls (query (failing_query econnreset) 5) = 5
     \<and> calls (transaction (failing_body econnreset) 5) = 5"
    by simp
  from c 5 have 6: "waits (query (failing_query econnreset) 5) = [1000, 2000, 4000, 5000]
     \<and> waits (transaction (failing_body econnreset) 5) = [1000, 2000, 4000, 5000]"
    by (simp add: upt delays)
  from 1 2 3 4 5 6 delays show ?thesis by simp
qed

end
